theory Spec2Isabelle
  imports Complex_Main
begin

section \<open>Data model (shared/schema.ts, server/routes.ts)\<close>

text \<open>
  Identifiers, user names, addresses and file names are JavaScript strings. A \<open>Date\<close> is
  read through \<open>getTime()\<close>, so a point in time is the integer number of milliseconds.
\<close>

type_synonym ident = string
type_synonym time = int

text \<open>
  \<open>gamePhase\<close> is a varchar column; the server only ever writes the five literals below.
\<close>

datatype phase = Waiting | Spinning | Choosing | Asking | Answering

datatype choice = Truth | Dare

datatype vote_type = Kick | Rejoin

record room =
  r_id :: ident
  roomKey :: string
  hostUserId :: "ident option"
  maxSkips :: int
  createdAt :: time
  lastActivity :: time
  isExpired :: bool

record user =
  u_id :: ident
  username :: string
  u_roomId :: "ident option"
  isHost :: bool
  isOnline :: bool
  skipsRemaining :: int
  joinedAt :: time
  socketId :: "string option"

record message =
  m_id :: ident
  m_roomId :: ident
  m_userId :: "ident option"
  m_username :: string
  messageText :: "string option"
  mediaUrl :: "string option"
  mediaType :: "string option"
  m_createdAt :: time

record kickedUser =
  k_id :: ident
  k_roomId :: ident
  ipAddress :: string
  k_username :: string
  kickedAt :: time
  rejoinAttempts :: int
  lastRejoinAttempt :: "time option"
  isPermanentlyBlocked :: bool

record gameState =
  g_id :: ident
  g_roomId :: ident
  currentTurnUserId :: "ident option"
  targetUserId :: "ident option"
  gamePhase :: phase
  questionText :: "string option"
  g_choice :: "choice option"
  updatedAt :: time

text \<open>
  \<open>VoteData\<close> of routes.ts. \<open>votes\<close> is a JavaScript \<open>Map\<close> from voter to ballot and
  \<open>timer\<close> the handle of the vote's timeout, absent until it is set.
\<close>

record voteData =
  voteId :: ident
  v_targetUserId :: ident
  targetUsername :: string
  initiatorUserId :: ident
  initiatorUsername :: string
  v_type :: vote_type
  votes :: "(ident \<times> bool) list"
  timer :: "nat option"

text \<open>
  The per-connection \<open>SocketData\<close> (a variable of the connection handler's closure) and the
  two things read from the \<open>socket\<close> itself: its id and the address that
  \<open>headers['x-forwarded-for'] || handshake.address\<close> evaluates to.
\<close>

record socketData =
  sd_userId :: "ident option"
  sd_roomId :: "ident option"
  sd_username :: "string option"

record socket =
  sock_id :: string
  sock_ip :: string

subsection \<open>JavaScript Map\<close>

text \<open>
  A \<open>Map\<close> keeps its entries in insertion order; \<open>set\<close> on a key that is present replaces
  the entry where it stands, \<open>set\<close> on a new key appends it. The model is an association
  list with exactly these operations.
\<close>

definition map_get :: "('k \<times> 'v) list \<Rightarrow> 'k \<Rightarrow> 'v option" where
  "map_get m k = map_of m k"

fun map_set :: "('k \<times> 'v) list \<Rightarrow> 'k \<Rightarrow> 'v \<Rightarrow> ('k \<times> 'v) list" where
  "map_set [] k v = [(k, v)]"
| "map_set ((k', v') # m) k v =
     (if k' = k then (k, v) # m else (k', v') # map_set m k v)"

definition map_delete :: "('k \<times> 'v) list \<Rightarrow> 'k \<Rightarrow> ('k \<times> 'v) list" where
  "map_delete m k = filter (\<lambda>e. fst e \<noteq> k) m"

definition map_values :: "('k \<times> 'v) list \<Rightarrow> 'v list" where
  "map_values m = map snd m"

text \<open>
  \<open>!x\<close> on an optional string: \<open>undefined\<close> and the empty string are falsy.
\<close>

definition truthy :: "string option \<Rightarrow> bool" where
  "truthy x = (case x of None \<Rightarrow> False | Some v \<Rightarrow> v \<noteq> [])"

text \<open>The string that an optional string holds, read where the source has checked it.\<close>

definition str_of :: "string option \<Rightarrow> string" where
  "str_of x = (case x of None \<Rightarrow> [] | Some v \<Rightarrow> v)"

subsection \<open>JavaScript numbers\<close>

text \<open>
  A JavaScript number is a double. The numbers of this server are integers: times in
  milliseconds, delays, counts and the skip count, which the schema declares as an integer
  column. An integer below \<open>2^53\<close> in magnitude is a double, and a sum or difference that
  stays below it is exact; a larger result is rounded to the nearest double, on a tie to
  the one with the even significand. \<open>round_double\<close> is this rounding on the natural
  numbers, \<open>to_double\<close> on the integers, and \<open>js_sub\<close> is the \<open>-\<close> of two numbers. Times
  and delays stay far below \<open>2^53\<close> (a \<open>Date\<close> ends at 8.64e15), so they are added as
  integers; the skip count comes from the request that creates the room and is not
  bounded.
\<close>

fun bitlen :: "nat \<Rightarrow> nat" where
  "bitlen n = (if n = 0 then 0 else Suc (bitlen (n div 2)))"

definition round_double :: "nat \<Rightarrow> nat" where
  "round_double n =
     (if n < 2 ^ 53 then n
      else (let ulp = 2 ^ (bitlen n - 53); q = n div ulp; r = n mod ulp
            in if 2 * r < ulp then q * ulp
               else if ulp < 2 * r then (q + 1) * ulp
               else if even q then q * ulp else (q + 1) * ulp))"

definition to_double :: "int \<Rightarrow> int" where
  "to_double z = (if z < 0 then - int (round_double (nat (- z))) else int (round_double (nat z)))"

definition js_sub :: "int \<Rightarrow> int \<Rightarrow> int" where
  "js_sub a b = to_double (a - b)"

section \<open>MemStorage (server/storage.ts)\<close>

text \<open>
  The maps of \<open>MemStorage\<close> that the server's handlers touch. Every object that
  \<open>randomUUID()\<close> names takes its id as a parameter, every \<open>new Date()\<close> the current time.
\<close>

record storage =
  rooms :: "(ident \<times> room) list"
  users :: "(ident \<times> user) list"
  messages :: "(ident \<times> message) list"
  kickedUsers :: "(ident \<times> kickedUser) list"
  gameStates :: "(ident \<times> gameState) list"

definition createRoom :: "ident \<Rightarrow> time \<Rightarrow> string \<Rightarrow> int \<Rightarrow> ident \<Rightarrow> storage \<Rightarrow> storage" where
  "createRoom uuid now key skips host st =
     st\<lparr>rooms := map_set (rooms st) uuid
        \<lparr>r_id = uuid, roomKey = key, hostUserId = Some host, maxSkips = skips,
         createdAt = now, lastActivity = now, isExpired = False\<rparr>\<rparr>"

definition getRoom :: "storage \<Rightarrow> ident \<Rightarrow> room option" where
  "getRoom st roomId = map_get (rooms st) roomId"

definition updateRoomActivity :: "time \<Rightarrow> ident \<Rightarrow> storage \<Rightarrow> storage" where
  "updateRoomActivity now roomId st =
     (case map_get (rooms st) roomId of
        None \<Rightarrow> st
      | Some r \<Rightarrow> st\<lparr>rooms := map_set (rooms st) roomId (r\<lparr>lastActivity := now\<rparr>)\<rparr>)"

definition updateRoomHost :: "ident \<Rightarrow> ident \<Rightarrow> storage \<Rightarrow> storage" where
  "updateRoomHost roomId newHostUserId st =
     (case map_get (rooms st) roomId of
        None \<Rightarrow> st
      | Some r \<Rightarrow> st\<lparr>rooms := map_set (rooms st) roomId (r\<lparr>hostUserId := Some newHostUserId\<rparr>)\<rparr>)"

definition expireRoom :: "ident \<Rightarrow> storage \<Rightarrow> storage" where
  "expireRoom roomId st =
     (case map_get (rooms st) roomId of
        None \<Rightarrow> st
      | Some r \<Rightarrow> st\<lparr>rooms := map_set (rooms st) roomId (r\<lparr>isExpired := True\<rparr>)\<rparr>)"

definition getInactiveRooms :: "time \<Rightarrow> int \<Rightarrow> storage \<Rightarrow> room list" where
  "getInactiveRooms now minutesInactive st =
     (let cutoff = now - minutesInactive * 60 * 1000
      in filter (\<lambda>r. \<not> isExpired r \<and> lastActivity r < cutoff) (map_values (rooms st)))"

definition deleteRoom :: "ident \<Rightarrow> storage \<Rightarrow> storage" where
  "deleteRoom roomId st = st\<lparr>rooms := map_delete (rooms st) roomId\<rparr>"

definition createUser :: "ident \<Rightarrow> time \<Rightarrow> string \<Rightarrow> ident \<Rightarrow> int \<Rightarrow> string \<Rightarrow> storage \<Rightarrow> storage" where
  "createUser uuid now name roomId skips sid st =
     st\<lparr>users := map_set (users st) uuid
        \<lparr>u_id = uuid, username = name, u_roomId = Some roomId, isHost = False,
         isOnline = True, skipsRemaining = skips, joinedAt = now, socketId = Some sid\<rparr>\<rparr>"

definition getUser :: "storage \<Rightarrow> ident \<Rightarrow> user option" where
  "getUser st userId = map_get (users st) userId"

definition getUsersByRoom :: "storage \<Rightarrow> ident \<Rightarrow> user list" where
  "getUsersByRoom st roomId = filter (\<lambda>u. u_roomId u = Some roomId) (map_values (users st))"

definition updateUserOnline :: "ident \<Rightarrow> bool \<Rightarrow> storage \<Rightarrow> storage" where
  "updateUserOnline userId online st =
     (case map_get (users st) userId of
        None \<Rightarrow> st
      | Some u \<Rightarrow> st\<lparr>users := map_set (users st) userId (u\<lparr>isOnline := online\<rparr>)\<rparr>)"

definition updateUserSkips :: "ident \<Rightarrow> int \<Rightarrow> storage \<Rightarrow> storage" where
  "updateUserSkips userId skips st =
     (case map_get (users st) userId of
        None \<Rightarrow> st
      | Some u \<Rightarrow> st\<lparr>users := map_set (users st) userId (u\<lparr>skipsRemaining := skips\<rparr>)\<rparr>)"

definition deleteUser :: "ident \<Rightarrow> storage \<Rightarrow> storage" where
  "deleteUser userId st = st\<lparr>users := map_delete (users st) userId\<rparr>"

definition makeUserHost :: "ident \<Rightarrow> storage \<Rightarrow> storage" where
  "makeUserHost userId st =
     (case map_get (users st) userId of
        None \<Rightarrow> st
      | Some u \<Rightarrow> st\<lparr>users := map_set (users st) userId (u\<lparr>isHost := True\<rparr>)\<rparr>)"

text \<open>\<open>messageText || null\<close>: an empty string is stored as null.\<close>

definition or_null :: "string option \<Rightarrow> string option" where
  "or_null x = (if truthy x then x else None)"

definition createMessage ::
  "ident \<Rightarrow> time \<Rightarrow> ident \<Rightarrow> ident option \<Rightarrow> string \<Rightarrow> string option \<Rightarrow> string option \<Rightarrow>
   string option \<Rightarrow> storage \<Rightarrow> storage" where
  "createMessage uuid now roomId userId name txt url mtype st =
     st\<lparr>messages := map_set (messages st) uuid
        \<lparr>m_id = uuid, m_roomId = roomId, m_userId = userId, m_username = name,
         messageText = or_null txt, mediaUrl = or_null url, mediaType = or_null mtype,
         m_createdAt = now\<rparr>\<rparr>"

text \<open>
  \<open>getMessagesByRoom\<close>: the room's messages sorted newest first (the sort is stable), cut to
  \<open>limit\<close>, reversed.
\<close>

definition getMessagesByRoom :: "storage \<Rightarrow> ident \<Rightarrow> nat \<Rightarrow> message list" where
  "getMessagesByRoom st roomId limit =
     rev (take limit
       (sort_key (\<lambda>m. - m_createdAt m)
          (filter (\<lambda>m. m_roomId m = roomId) (map_values (messages st)))))"

definition deleteMessagesByRoom :: "ident \<Rightarrow> storage \<Rightarrow> storage" where
  "deleteMessagesByRoom roomId st =
     (let messageIds = map fst (filter (\<lambda>e. m_roomId (snd e) = roomId) (messages st))
      in st\<lparr>messages := fold (\<lambda>i m. map_delete m i) messageIds (messages st)\<rparr>)"

definition createKickedUser :: "ident \<Rightarrow> time \<Rightarrow> ident \<Rightarrow> string \<Rightarrow> string \<Rightarrow> storage \<Rightarrow> storage" where
  "createKickedUser uuid now roomId ip name st =
     st\<lparr>kickedUsers := map_set (kickedUsers st) uuid
        \<lparr>k_id = uuid, k_roomId = roomId, ipAddress = ip, k_username = name, kickedAt = now,
         rejoinAttempts = 0, lastRejoinAttempt = None, isPermanentlyBlocked = False\<rparr>\<rparr>"

definition createGameState :: "ident \<Rightarrow> time \<Rightarrow> ident \<Rightarrow> storage \<Rightarrow> storage" where
  "createGameState uuid now roomId st =
     st\<lparr>gameStates := map_set (gameStates st) uuid
        \<lparr>g_id = uuid, g_roomId = roomId, currentTurnUserId = None, targetUserId = None,
         gamePhase = Waiting, questionText = None, g_choice = None, updatedAt = now\<rparr>\<rparr>"

definition getGameState :: "storage \<Rightarrow> ident \<Rightarrow> gameState option" where
  "getGameState st roomId = find (\<lambda>gs. g_roomId gs = roomId) (map_values (gameStates st))"

text \<open>
  \<open>updateGameState(roomId, updates)\<close>: \<open>Object.assign\<close> writes the fields of \<open>updates\<close>,
  given here as the function that writes them, and then \<open>updatedAt\<close>.
\<close>

definition updateGameState :: "time \<Rightarrow> ident \<Rightarrow> (gameState \<Rightarrow> gameState) \<Rightarrow> storage \<Rightarrow> storage" where
  "updateGameState now roomId updates st =
     (case getGameState st roomId of
        None \<Rightarrow> st
      | Some gs \<Rightarrow>
          st\<lparr>gameStates := map_set (gameStates st) (g_id gs) ((updates gs)\<lparr>updatedAt := now\<rparr>)\<rparr>)"

section \<open>The server (server/routes.ts)\<close>

subsection \<open>Outbound events\<close>

text \<open>
  What the handlers emit: \<open>socket.emit\<close> reaches one connection, \<open>io.to(roomId).emit\<close> the
  room's broadcast group. The payload of each event carries the fields of the source's
  object literal, in its order.
\<close>

datatype payload =
    Error string
  | RoomJoined "user option" "room option" "user list" "gameState option" "message list"
  | UserJoined "user option" "user list"
  | NewMessage "message option"
  | GameStateUpdated "gameState option"
  | BottleSpinning ident "int option" "ident option"
  | UserUsedSkip "ident option" "string option" int "user list"
  | NextTurnEv ident
  | VoteStarted ident ident string string vote_type
  | VoteUpdated ident nat nat
  | VoteResolved ident bool nat nat
  | UserLeft ident "user list"
  | NewHost ident string
  | UserInactive ident string

datatype emitted = ToSocket string payload | ToRoom ident payload

subsection \<open>Timers\<close>

text \<open>
  The callbacks that the server hands to \<open>setTimeout\<close>, each with the variables its closure
  captures: the spin resolution (line 310), a vote's timeout (lines 450 and 564), the two
  stages of the inactivity timer (lines 539 and 542), the expiry of a disconnect's grace
  period (line 587) and the timer that clears it (line 622).
\<close>

datatype callback =
    SpinResolve socket ident ident string
  | VoteTimeout socket ident ident
  | InactivityWarn socket ident ident string
  | InactivityVote socket ident ident string
  | GraceExpiry socket socketData
  | ClearTimer nat

text \<open>
  Every handler and every timer callback runs to its end before the next one starts: the
  promises of \<open>MemStorage\<close> are resolved when they are awaited. The state of the process:
  the storage, the two global maps \<open>activeVotes\<close> and
  \<open>inactivityTimers\<close>, the timeouts that are pending (handle, due time, callback), the next
  handle, the names of the files in the upload directory, the clock that \<open>Date.now()\<close>
  reads, and everything emitted so far, oldest first.
\<close>

record server =
  store :: storage
  activeVotes :: "(ident \<times> voteData) list"
  inactivityTimers :: "(ident \<times> nat) list"
  timers :: "(nat \<times> time \<times> callback) list"
  nextTimer :: nat
  uploads :: "string list"
  clock :: time
  outbox :: "emitted list"

definition emit :: "emitted \<Rightarrow> server \<Rightarrow> server" where
  "emit e s = s\<lparr>outbox := outbox s @ [e]\<rparr>"

definition setTimeout :: "callback \<Rightarrow> int \<Rightarrow> server \<Rightarrow> nat \<times> server" where
  "setTimeout cb delay s =
     (nextTimer s,
      s\<lparr>timers := timers s @ [(nextTimer s, clock s + delay, cb)],
        nextTimer := Suc (nextTimer s)\<rparr>)"

definition clearTimeout :: "nat \<Rightarrow> server \<Rightarrow> server" where
  "clearTimeout h s = s\<lparr>timers := filter (\<lambda>t. fst t \<noteq> h) (timers s)\<rparr>"

subsection \<open>Inactivity timers (lines 536-579)\<close>

definition clearInactivityTimer :: "ident \<Rightarrow> server \<Rightarrow> server" where
  "clearInactivityTimer userId s =
     (case map_get (inactivityTimers s) userId of
        None \<Rightarrow> s
      | Some h \<Rightarrow>
          (clearTimeout h s)\<lparr>inactivityTimers := map_delete (inactivityTimers s) userId\<rparr>)"

definition startInactivityTimer :: "socket \<Rightarrow> ident \<Rightarrow> ident \<Rightarrow> string \<Rightarrow> server \<Rightarrow> server" where
  "startInactivityTimer sock roomId userId name s =
     (let s1 = clearInactivityTimer userId s;
          (h, s2) = setTimeout (InactivityWarn sock roomId userId name) 120000 s1
      in s2\<lparr>inactivityTimers := map_set (inactivityTimers s2) userId h\<rparr>)"

text \<open>Decimal notation of a number, as a template literal prints \<open>Date.now()\<close>.\<close>

fun decimal :: "nat \<Rightarrow> string" where
  "decimal n =
     (if n < 10 then [''0123456789'' ! n]
      else decimal (n div 10) @ [''0123456789'' ! (n mod 10)])"

text \<open>
  The second stage of the inactivity timer (the callback of line 542): a kick vote against
  the user, with the system as initiator, and the vote's own 30-second timeout.
\<close>

definition inactivityVote :: "socket \<Rightarrow> ident \<Rightarrow> ident \<Rightarrow> string \<Rightarrow> server \<Rightarrow> server" where
  "inactivityVote sock roomId userId name s =
     (let vid = ''inactivity-'' @ userId @ ''-'' @ decimal (nat (clock s));
          vd = \<lparr>voteId = vid, v_targetUserId = userId, targetUsername = name,
                initiatorUserId = ''system'', initiatorUsername = ''System'',
                v_type = Kick, votes = [], timer = None\<rparr>;
          s1 = s\<lparr>activeVotes := map_set (activeVotes s) vid vd\<rparr>;
          s2 = emit (ToRoom roomId (VoteStarted vid userId name ''System (Inactivity)'' Kick)) s1;
          (h, s3) = setTimeout (VoteTimeout sock vid roomId) 30000 s2
      in s3\<lparr>activeVotes := map_set (activeVotes s3) vid (vd\<lparr>timer := Some h\<rparr>)\<rparr>)"

definition inactivityWarn :: "socket \<Rightarrow> ident \<Rightarrow> ident \<Rightarrow> string \<Rightarrow> server \<Rightarrow> server" where
  "inactivityWarn sock roomId userId name s =
     snd (setTimeout (InactivityVote sock roomId userId name) 5000
            (emit (ToRoom roomId (UserInactive userId name)) s))"

subsection \<open>Votes (lines 422-534)\<close>

definition yesCount :: "voteData \<Rightarrow> nat" where
  "yesCount vd = length (filter (\<lambda>v. v) (map_values (votes vd)))"

definition noCount :: "voteData \<Rightarrow> nat" where
  "noCount vd = length (filter (\<lambda>v. \<not> v) (map_values (votes vd)))"

text \<open>
  The host reassignment of a passed kick vote (lines 513-522), on the users that remain in
  the room: \<open>sort\<close> is stable and \<open>[0]\<close> is its first element.
\<close>

definition kickReassignHost :: "ident \<Rightarrow> user \<Rightarrow> user list \<Rightarrow> server \<Rightarrow> server" where
  "kickReassignHost roomId targetUser remainingUsers s =
     (if length remainingUsers > 0 \<and> isHost targetUser then
        (case sort_key joinedAt remainingUsers of
           [] \<Rightarrow> s
         | oldestUser # _ \<Rightarrow>
             emit (ToRoom roomId (NewHost (u_id oldestUser) (username oldestUser)))
               (s\<lparr>store := updateRoomHost roomId (u_id oldestUser)
                              (makeUserHost (u_id oldestUser) (store s))\<rparr>))
      else s)"

text \<open>
  \<open>resolveVote\<close>. \<open>uuid\<close> is the id that \<open>createKickedUser\<close> draws. The search for the
  target's socket (line 501) compares \<open>s.data.userId\<close>, a field the server never writes
  (the user id is kept in the closure's \<open>socketData\<close>), so it finds none and the branch
  that notifies the kicked connection does not run.
\<close>

definition resolveVote :: "socket \<Rightarrow> ident \<Rightarrow> ident \<Rightarrow> ident \<Rightarrow> server \<Rightarrow> server" where
  "resolveVote sock uuid vid roomId s =
     (case map_get (activeVotes s) vid of
        None \<Rightarrow> s
      | Some vd \<Rightarrow>
          (let yesVotes = yesCount vd;
               noVotes = noCount vd;
               passed = (yesVotes > noVotes);
               s1 = (if passed \<and> v_type vd = Kick then
                       (case getUser (store s) (v_targetUserId vd) of
                          None \<Rightarrow> s
                        | Some targetUser \<Rightarrow>
                            (let st1 = createKickedUser uuid (clock s) roomId (sock_ip sock)
                                         (username targetUser) (store s);
                                 st2 = deleteUser (v_targetUserId vd) st1;
                                 remainingUsers = getUsersByRoom st2 roomId;
                                 s' = emit (ToRoom roomId (UserLeft (v_targetUserId vd) remainingUsers))
                                        (s\<lparr>store := st2\<rparr>)
                             in kickReassignHost roomId targetUser remainingUsers s'))
                     else s);
               s2 = emit (ToRoom roomId (VoteResolved vid passed yesVotes noVotes)) s1
           in s2\<lparr>activeVotes := map_delete (activeVotes s2) vid\<rparr>))"


text \<open>
  The number of eligible voters that \<open>cast_vote\<close> computes (lines 473-474): the users of
  the room other than the target.
\<close>

definition eligibleVoters :: "storage \<Rightarrow> ident \<Rightarrow> voteData \<Rightarrow> nat" where
  "eligibleVoters st roomId vd =
     length (filter (\<lambda>u. u_id u \<noteq> v_targetUserId vd) (getUsersByRoom st roomId))"

definition cast_vote ::
  "socket \<Rightarrow> socketData \<Rightarrow> ident \<Rightarrow> ident \<Rightarrow> bool \<Rightarrow> ident \<Rightarrow> server \<Rightarrow> server" where
  "cast_vote sock sd uuid vid vote roomId s =
     (if \<not> truthy (sd_userId sd) then s
      else
        (case map_get (activeVotes s) vid of
           None \<Rightarrow> s
         | Some vd \<Rightarrow>
             (let vd' = vd\<lparr>votes := map_set (votes vd) (str_of (sd_userId sd)) vote\<rparr>;
                  s1 = s\<lparr>activeVotes := map_set (activeVotes s) vid vd'\<rparr>;
                  s2 = emit (ToRoom roomId (VoteUpdated vid (yesCount vd') (noCount vd'))) s1
              in if length (votes vd') \<ge> eligibleVoters (store s2) roomId vd' then
                   resolveVote sock uuid vid roomId
                     (case timer vd' of None \<Rightarrow> s2 | Some h \<Rightarrow> clearTimeout h s2)
                 else s2)))"

subsection \<open>The turn engine (lines 278-420)\<close>

text \<open>
  \<open>xs[Math.floor(r * xs.length)]\<close> for a number \<open>r\<close> that \<open>Math.random()\<close> returned: an index
  outside the array reads \<open>undefined\<close>.
\<close>

definition pick :: "'a list \<Rightarrow> real \<Rightarrow> 'a option" where
  "pick xs r =
     (let i = \<lfloor>r * real (length xs)\<rfloor>
      in if 0 \<le> i \<and> nat i < length xs then Some (xs ! nat i) else None)"

definition durations :: "int list" where
  "durations = [2000, 4500, 7000]"

text \<open>
  \<open>spin_bottle\<close>; \<open>r1\<close> and \<open>r2\<close> are the two random numbers. Reading \<open>targetUser.id\<close> of an
  undefined target throws, and the handler's \<open>catch\<close> reports it. A timeout whose delay is
  not a number is set to one millisecond.
\<close>

definition spin_bottle :: "socket \<Rightarrow> socketData \<Rightarrow> real \<Rightarrow> real \<Rightarrow> ident \<Rightarrow> server \<Rightarrow> server" where
  "spin_bottle sock sd r1 r2 roomId s =
     (if \<not> truthy (sd_userId sd) \<or> \<not> truthy (sd_roomId sd) then
        emit (ToSocket (sock_id sock) (Error ''Not authenticated'')) s
      else
        (let onlineUsers = filter isOnline (getUsersByRoom (store s) roomId)
         in if length onlineUsers < 2 then
              emit (ToSocket (sock_id sock) (Error ''Not enough players'')) s
            else
              (let otherUsers = filter (\<lambda>u. Some (u_id u) \<noteq> sd_userId sd) onlineUsers
               in case pick otherUsers r1 of
                    None \<Rightarrow> emit (ToSocket (sock_id sock) (Error ''Failed to spin bottle'')) s
                  | Some targetUser \<Rightarrow>
                      (let duration = pick durations r2;
                           s1 = s\<lparr>store := updateGameState (clock s) roomId
                                  (\<lambda>g. g\<lparr>gamePhase := Spinning,
                                         targetUserId := Some (u_id targetUser)\<rparr>) (store s)\<rparr>;
                           s2 = emit (ToRoom roomId
                                  (BottleSpinning (u_id targetUser) duration (sd_userId sd))) s1
                       in snd (setTimeout
                                 (SpinResolve sock roomId (u_id targetUser) (username targetUser))
                                 (case duration of None \<Rightarrow> 1 | Some d \<Rightarrow> d + 1000) s2)))))"

text \<open>The callback of the spin's timeout (lines 310-320).\<close>

definition spinResolve :: "socket \<Rightarrow> ident \<Rightarrow> ident \<Rightarrow> string \<Rightarrow> server \<Rightarrow> server" where
  "spinResolve sock roomId target name s =
     (let s1 = s\<lparr>store := updateGameState (clock s) roomId
                 (\<lambda>g. g\<lparr>gamePhase := Choosing, targetUserId := Some target\<rparr>) (store s)\<rparr>;
          s2 = emit (ToRoom roomId (GameStateUpdated (getGameState (store s1) roomId))) s1
      in startInactivityTimer sock roomId target name s2)"

definition choose_truth_or_dare :: "socket \<Rightarrow> socketData \<Rightarrow> ident \<Rightarrow> choice \<Rightarrow> server \<Rightarrow> server" where
  "choose_truth_or_dare sock sd roomId ch s =
     (if \<not> truthy (sd_userId sd) then s
      else
        (let s1 = clearInactivityTimer (str_of (sd_userId sd)) s;
             s2 = s1\<lparr>store := updateGameState (clock s1) roomId
                    (\<lambda>g. g\<lparr>gamePhase := Asking, g_choice := Some ch\<rparr>) (store s1)\<rparr>;
             gs = getGameState (store s2) roomId;
             s3 = emit (ToRoom roomId (GameStateUpdated gs)) s2
         in case getUser (store s3)
                   (str_of (case gs of None \<Rightarrow> None | Some g \<Rightarrow> currentTurnUserId g)) of
              None \<Rightarrow> s3
            | Some currentTurnUser \<Rightarrow>
                startInactivityTimer sock roomId (u_id currentTurnUser)
                  (username currentTurnUser) s3))"

definition submit_question :: "socket \<Rightarrow> socketData \<Rightarrow> ident \<Rightarrow> string \<Rightarrow> server \<Rightarrow> server" where
  "submit_question sock sd roomId txt s =
     (if \<not> truthy (sd_userId sd) then s
      else
        (let s1 = clearInactivityTimer (str_of (sd_userId sd)) s;
             s2 = s1\<lparr>store := updateGameState (clock s1) roomId
                    (\<lambda>g. g\<lparr>gamePhase := Answering, questionText := Some txt\<rparr>) (store s1)\<rparr>
         in emit (ToRoom roomId (GameStateUpdated (getGameState (store s2) roomId))) s2))"

text \<open>\<open>findIndex\<close>: the position of the first element that satisfies the test, or -1.\<close>

fun findIndex :: "('a \<Rightarrow> bool) \<Rightarrow> 'a list \<Rightarrow> int" where
  "findIndex P [] = -1"
| "findIndex P (x # xs) =
     (if P x then 0 else (let i = findIndex P xs in if i < 0 then -1 else i + 1))"

definition next_turn :: "socket \<Rightarrow> socketData \<Rightarrow> ident \<Rightarrow> server \<Rightarrow> server" where
  "next_turn sock sd roomId s =
     (let onlineUsers = filter isOnline (getUsersByRoom (store s) roomId)
      in if length onlineUsers < 2 then s
         else
           (let gs = getGameState (store s) roomId;
                currentIndex = findIndex
                  (\<lambda>u. (case gs of None \<Rightarrow> None | Some g \<Rightarrow> currentTurnUserId g) = Some (u_id u))
                  onlineUsers;
                nextIndex = (currentIndex + 1) mod int (length onlineUsers);
                nextUser = onlineUsers ! nat nextIndex;
                s1 = s\<lparr>store := updateGameState (clock s) roomId
                       (\<lambda>g. g\<lparr>currentTurnUserId := Some (u_id nextUser), targetUserId := None,
                              gamePhase := (if length onlineUsers = 2 then Choosing else Waiting),
                              questionText := None, g_choice := None\<rparr>) (store s)\<rparr>
            in emit (ToRoom roomId (GameStateUpdated (getGameState (store s1) roomId))) s1))"

text \<open>
  \<open>use_skip\<close>. \<open>user\<close> is the object that the storage holds, so after \<open>updateUserSkips\<close>
  has written it the broadcast reads the new count (\<open>u'\<close>) and subtracts one again. The last
  statement, \<open>socket.emit('next_turn', ...)\<close>, sends an event named \<open>next_turn\<close> to the
  caller's own client; it does not run the server's \<open>next_turn\<close> handler.
\<close>

definition use_skip :: "socket \<Rightarrow> socketData \<Rightarrow> ident \<Rightarrow> server \<Rightarrow> server" where
  "use_skip sock sd roomId s =
     (if \<not> truthy (sd_userId sd) then s
      else
        (case getUser (store s) (str_of (sd_userId sd)) of
           None \<Rightarrow> emit (ToSocket (sock_id sock) (Error ''No skips remaining'')) s
         | Some u \<Rightarrow>
             if skipsRemaining u \<le> 0 then
               emit (ToSocket (sock_id sock) (Error ''No skips remaining'')) s
             else
               (let s1 = s\<lparr>store := updateUserSkips (str_of (sd_userId sd))
                                      (js_sub (skipsRemaining u) 1) (store s)\<rparr>;
                    u' = u\<lparr>skipsRemaining := js_sub (skipsRemaining u) 1\<rparr>;
                    s2 = emit (ToRoom roomId
                           (UserUsedSkip (sd_userId sd) (sd_username sd)
                              (js_sub (skipsRemaining u') 1)
                              (getUsersByRoom (store s1) roomId))) s1
                in emit (ToSocket (sock_id sock) (NextTurnEv roomId)) s2)))"

subsection \<open>Presence (lines 182-251 and 581-626)\<close>

definition join_room ::
  "socket \<Rightarrow> socketData \<Rightarrow> ident \<Rightarrow> ident \<Rightarrow> ident \<Rightarrow> string \<Rightarrow> server \<Rightarrow> socketData \<times> server" where
  "join_room sock sd uuid msgId roomId name s =
     (case getRoom (store s) roomId of
        None \<Rightarrow> (sd, emit (ToSocket (sock_id sock) (Error ''Room not found or expired'')) s)
      | Some room0 \<Rightarrow>
          if isExpired room0 then
            (sd, emit (ToSocket (sock_id sock) (Error ''Room not found or expired'')) s)
          else
            (let st1 = updateRoomActivity (clock s) roomId (store s);
                 st2 = createUser uuid (clock s) name roomId (maxSkips room0) (sock_id sock) st1;
                 sd' = \<lparr>sd_userId = Some uuid, sd_roomId = Some roomId, sd_username = Some name\<rparr>;
                 st3 = (if length (getUsersByRoom st2 roomId) = 1
                        then updateRoomHost roomId uuid (makeUserHost uuid st2) else st2);
                 allUsers = getUsersByRoom st3 roomId;
                 gs = getGameState st3 roomId;
                 s1 = emit (ToSocket (sock_id sock)
                        (RoomJoined (getUser st3 uuid) (getRoom st3 roomId) allUsers gs
                           (getMessagesByRoom st3 roomId 100))) (s\<lparr>store := st3\<rparr>);
                 s2 = emit (ToRoom roomId (UserJoined (getUser st3 uuid) allUsers)) s1;
                 st4 = createMessage msgId (clock s) roomId None ''System''
                         (Some (name @ '' joined the game'')) None None st3;
                 updatedMessages = getMessagesByRoom st4 roomId 100;
                 s3 = emit (ToRoom roomId
                        (NewMessage (if updatedMessages = [] then None
                                     else Some (last updatedMessages)))) (s2\<lparr>store := st4\<rparr>)
             in case allUsers of
                  [first, _] \<Rightarrow>
                    if map_option gamePhase gs = Some Waiting then
                      (let st5 = updateGameState (clock s) roomId
                                   (\<lambda>g. g\<lparr>currentTurnUserId := Some (u_id first),
                                          gamePhase := Choosing\<rparr>) st4
                       in (sd', emit (ToRoom roomId (GameStateUpdated (getGameState st5 roomId)))
                                  (s3\<lparr>store := st5\<rparr>)))
                    else (sd', s3)
                | _ \<Rightarrow> (sd', s3)))"

definition disconnect :: "socket \<Rightarrow> socketData \<Rightarrow> server \<Rightarrow> server" where
  "disconnect sock sd s =
     (if truthy (sd_userId sd) then
        (let s1 = clearInactivityTimer (str_of (sd_userId sd)) s;
             (reconnectTimeout, s2) = setTimeout (GraceExpiry sock sd) 120000 s1
         in snd (setTimeout (ClearTimer reconnectTimeout) 120000 s2))
      else s)"

text \<open>
  The host reassignment when a disconnect's grace period ends (lines 602-618), on the
  room's online users.
\<close>

definition graceReassignHost :: "ident \<Rightarrow> user \<Rightarrow> user list \<Rightarrow> server \<Rightarrow> server" where
  "graceReassignHost roomId u onlineUsers s =
     (if length onlineUsers = 0 then s
      else if isHost u then
        (case sort_key joinedAt onlineUsers of
           [] \<Rightarrow> s
         | oldestOnlineUser # _ \<Rightarrow>
             emit (ToRoom roomId (NewHost (u_id oldestOnlineUser) (username oldestOnlineUser)))
               (s\<lparr>store := updateRoomHost roomId (u_id oldestOnlineUser)
                              (makeUserHost (u_id oldestOnlineUser) (store s))\<rparr>))
      else s)"

definition graceExpiry :: "socket \<Rightarrow> socketData \<Rightarrow> server \<Rightarrow> server" where
  "graceExpiry sock sd s =
     (if \<not> truthy (sd_userId sd) \<or> \<not> truthy (sd_roomId sd) then s
      else
        (case getUser (store s) (str_of (sd_userId sd)) of
           None \<Rightarrow> s
         | Some u \<Rightarrow>
             if socketId u = Some (sock_id sock) then
               (let st1 = updateUserOnline (str_of (sd_userId sd)) False (store s);
                    roomUsers = getUsersByRoom st1 (str_of (sd_roomId sd));
                    onlineUsers = filter isOnline roomUsers;
                    s1 = emit (ToRoom (str_of (sd_roomId sd))
                           (UserLeft (str_of (sd_userId sd)) roomUsers)) (s\<lparr>store := st1\<rparr>)
                in graceReassignHost (str_of (sd_roomId sd)) u onlineUsers s1)
             else s))"

subsection \<open>The event loop's timers\<close>

fun run_callback :: "ident \<Rightarrow> callback \<Rightarrow> server \<Rightarrow> server" where
  "run_callback uuid (SpinResolve sock roomId target name) s = spinResolve sock roomId target name s"
| "run_callback uuid (VoteTimeout sock vid roomId) s = resolveVote sock uuid vid roomId s"
| "run_callback uuid (InactivityWarn sock roomId userId name) s = inactivityWarn sock roomId userId name s"
| "run_callback uuid (InactivityVote sock roomId userId name) s = inactivityVote sock roomId userId name s"
| "run_callback uuid (GraceExpiry sock sd) s = graceExpiry sock sd s"
| "run_callback uuid (ClearTimer h) s = clearTimeout h s"

text \<open>
  The timer that runs next is the pending one that is due first, the one set first among
  those due together. \<open>fire\<close> runs it once the clock has reached its due time (\<open>uuid\<close> is
  the id its callback draws, if it draws one); \<open>advance\<close> lets time pass.
\<close>

definition next_due :: "(nat \<times> time \<times> callback) list \<Rightarrow> (nat \<times> time \<times> callback) option" where
  "next_due ts = (case sort_key (\<lambda>t. fst (snd t)) ts of [] \<Rightarrow> None | t # _ \<Rightarrow> Some t)"

definition fire :: "ident \<Rightarrow> server \<Rightarrow> server" where
  "fire uuid s =
     (case next_due (timers s) of
        None \<Rightarrow> s
      | Some (h, due, cb) \<Rightarrow>
          if clock s < due then s else run_callback uuid cb (clearTimeout h s))"

definition advance :: "time \<Rightarrow> server \<Rightarrow> server" where
  "advance t s = s\<lparr>clock := max (clock s) t\<rparr>"

subsection \<open>The reap sweep (lines 629-646, server/utils/fileUpload.ts)\<close>

text \<open>\<open>path.basename\<close>: the part after the last slash, trailing slashes dropped.\<close>

definition basename :: "string \<Rightarrow> string" where
  "basename p =
     rev (takeWhile (\<lambda>c. c \<noteq> CHR ''/'') (dropWhile (\<lambda>c. c = CHR ''/'') (rev p)))"

text \<open>
  \<open>deleteFile\<close> on the upload directory, given by the names of its files. The empty name
  and the names \<open>.\<close> and \<open>..\<close> join to a directory, which exists and which \<open>unlinkSync\<close>
  refuses with an exception: \<open>Inl\<close>. \<open>deleteAllFilesInRoom\<close> stops at the first exception.
\<close>

definition deleteFile :: "string \<Rightarrow> string list \<Rightarrow> string list + string list" where
  "deleteFile filename files =
     (if filename = [] \<or> filename = ''.'' \<or> filename = ''..'' then Inl files
      else Inr (removeAll filename files))"

fun deleteAllFilesInRoom :: "message list \<Rightarrow> string list \<Rightarrow> string list + string list" where
  "deleteAllFilesInRoom [] files = Inr files"
| "deleteAllFilesInRoom (msg # msgs) files =
     (if truthy (mediaUrl msg) then
        (case deleteFile (basename (str_of (mediaUrl msg))) files of
           Inl files' \<Rightarrow> Inl files'
         | Inr files' \<Rightarrow> deleteAllFilesInRoom msgs files')
      else deleteAllFilesInRoom msgs files)"

text \<open>
  The body of the sweep's loop over the inactive rooms; an exception leaves the loop (the
  sweep's \<open>catch\<close> logs it). The sweep runs every \<open>cleanupInterval\<close> milliseconds.
\<close>

fun cleanupRooms :: "room list \<Rightarrow> server \<Rightarrow> server" where
  "cleanupRooms [] s = s"
| "cleanupRooms (r # rest) s =
     (case deleteAllFilesInRoom (getMessagesByRoom (store s) (r_id r) 100) (uploads s) of
        Inl files' \<Rightarrow> s\<lparr>uploads := files'\<rparr>
      | Inr files' \<Rightarrow>
          cleanupRooms rest
            (s\<lparr>uploads := files',
               store := deleteRoom (r_id r) (expireRoom (r_id r)
                          (deleteMessagesByRoom (r_id r) (store s)))\<rparr>))"

definition cleanup :: "server \<Rightarrow> server" where
  "cleanup s = cleanupRooms (getInactiveRooms (clock s) 30 (store s)) s"

definition cleanupInterval :: int where
  "cleanupInterval = 5 * 60 * 1000"

subsection \<open>Inbound game events\<close>

text \<open>
  The five game events of the socket interface with their payloads, and the handler that
  each runs on the connection it arrives on.
\<close>

datatype game_event =
    Spin_bottle real real
  | Choose_truth_or_dare choice
  | Submit_question string
  | Next_turn
  | Use_skip

fun handle_event :: "socket \<Rightarrow> socketData \<Rightarrow> ident \<Rightarrow> game_event \<Rightarrow> server \<Rightarrow> server" where
  "handle_event sock sd roomId (Spin_bottle r1 r2) s = spin_bottle sock sd r1 r2 roomId s"
| "handle_event sock sd roomId (Choose_truth_or_dare ch) s = choose_truth_or_dare sock sd roomId ch s"
| "handle_event sock sd roomId (Submit_question txt) s = submit_question sock sd roomId txt s"
| "handle_event sock sd roomId Next_turn s = next_turn sock sd roomId s"
| "handle_event sock sd roomId Use_skip s = use_skip sock sd roomId s"

definition phase_of :: "server \<Rightarrow> ident \<Rightarrow> phase option" where
  "phase_of s roomId = map_option gamePhase (getGameState (store s) roomId)"

text \<open>
  The phase that each handler writes when it writes the game state: a constant of the
  handler, except for \<open>next_turn\<close>, which looks at the number of online users. \<open>use_skip\<close>
  writes no game state itself; the turn advance that it asks for is that of \<open>next_turn\<close>.
\<close>

fun written_phase :: "server \<Rightarrow> ident \<Rightarrow> game_event \<Rightarrow> phase option" where
  "written_phase s roomId (Spin_bottle r1 r2) = Some Spinning"
| "written_phase s roomId (Choose_truth_or_dare ch) = Some Asking"
| "written_phase s roomId (Submit_question txt) = Some Answering"
| "written_phase s roomId Next_turn =
     Some (if length (filter isOnline (getUsersByRoom (store s) roomId)) = 2
           then Choosing else Waiting)"
| "written_phase s roomId Use_skip =
     Some (if length (filter isOnline (getUsersByRoom (store s) roomId)) = 2
           then Choosing else Waiting)"

text \<open>The edges of the specification's phase diagram (section 4.2), for comparison.\<close>

fun spec_edge :: "phase \<Rightarrow> phase \<Rightarrow> bool" where
  "spec_edge Waiting q = (q = Spinning)"
| "spec_edge Spinning q = (q = Choosing)"
| "spec_edge Choosing q = (q = Asking)"
| "spec_edge Asking q = (q = Answering)"
| "spec_edge Answering q = (q = Waiting \<or> q = Choosing)"

text \<open>A sequence of \<open>cast_vote\<close> events on one vote: who casts, and the ballot.\<close>

fun cast_votes :: "socket \<Rightarrow> ident \<Rightarrow> ident \<Rightarrow> ident \<Rightarrow> (socketData \<times> bool) list \<Rightarrow> server \<Rightarrow> server" where
  "cast_votes sock uuid vid roomId [] s = s"
| "cast_votes sock uuid vid roomId ((sd, v) # cs) s =
     cast_votes sock uuid vid roomId cs (cast_vote sock sd uuid vid v roomId s)"

text \<open>The last ballot that a voter casts in such a sequence.\<close>

fun last_cast :: "ident \<Rightarrow> (socketData \<times> bool) list \<Rightarrow> bool option" where
  "last_cast voter [] = None"
| "last_cast voter ((sd, v) # cs) =
     (case last_cast voter cs of
        Some v' \<Rightarrow> Some v'
      | None \<Rightarrow> if truthy (sd_userId sd) \<and> str_of (sd_userId sd) = voter then Some v else None)"

section \<open>Invariants of the storage maps\<close>

text \<open>
  The invariant of the \<open>users\<close> map: a \<open>Map\<close> holds each key once, and \<open>createUser\<close> stores
  every user under the user's own id.
\<close>

definition wf_users :: "storage \<Rightarrow> bool" where
  "wf_users st =
     (distinct (map fst (users st)) \<and> list_all (\<lambda>e. fst e = u_id (snd e)) (users st))"

text \<open>Likewise \<open>createGameState\<close> stores every game state under its own id.\<close>

definition wf_gameStates :: "storage \<Rightarrow> bool" where
  "wf_gameStates st = list_all (\<lambda>e. fst e = g_id (snd e)) (gameStates st)"

section \<open>Example states\<close>

text \<open>
  A room \<open>R\<close> with its game state \<open>G\<close>, users named by their ids, and the connection and
  socket data of a user who has joined.
\<close>

definition ex_user :: "ident \<Rightarrow> bool \<Rightarrow> bool \<Rightarrow> int \<Rightarrow> time \<Rightarrow> ident \<times> user" where
  "ex_user i host online skips t =
     (i, \<lparr>u_id = i, username = i, u_roomId = Some ''R'', isHost = host, isOnline = online,
          skipsRemaining = skips, joinedAt = t, socketId = Some i\<rparr>)"

definition ex_storage :: "(ident \<times> user) list \<Rightarrow> phase \<Rightarrow> storage" where
  "ex_storage us p =
     \<lparr>rooms = [(''R'', \<lparr>r_id = ''R'', roomKey = ''ABCD-EFGH-JKLM-NPQR'', hostUserId = Some ''A'',
                        maxSkips = 1, createdAt = 0, lastActivity = 0, isExpired = False\<rparr>)],
      users = us, messages = [], kickedUsers = [],
      gameStates = [(''G'', \<lparr>g_id = ''G'', g_roomId = ''R'', currentTurnUserId = Some ''A'',
                             targetUserId = None, gamePhase = p, questionText = None,
                             g_choice = None, updatedAt = 0\<rparr>)]\<rparr>"

definition ex_server :: "storage \<Rightarrow> (ident \<times> voteData) list \<Rightarrow> server" where
  "ex_server st vs =
     \<lparr>store = st, activeVotes = vs, inactivityTimers = [], timers = [], nextTimer = 0,
      uploads = [], clock = 0, outbox = []\<rparr>"

definition ex_vote :: "ident \<Rightarrow> ident \<Rightarrow> (ident \<times> bool) list \<Rightarrow> nat option \<Rightarrow> ident \<times> voteData" where
  "ex_vote vid target ballots h =
     (vid, \<lparr>voteId = vid, v_targetUserId = target, targetUsername = target,
            initiatorUserId = ''A'', initiatorUsername = ''A'', v_type = Kick,
            votes = ballots, timer = h\<rparr>)"

definition ex_socket :: "ident \<Rightarrow> socket" where
  "ex_socket i = \<lparr>sock_id = i, sock_ip = ''10.0.0.1''\<rparr>"

definition ex_sd :: "ident \<Rightarrow> socketData" where
  "ex_sd i = \<lparr>sd_userId = Some i, sd_roomId = Some ''R'', sd_username = Some i\<rparr>"

text \<open>Three users, the second one offline; two users, the second one without a skip.\<close>

definition ex_three :: "(ident \<times> user) list" where
  "ex_three = [ex_user ''A'' True True 1 1000, ex_user ''B'' False False 1 2000,
               ex_user ''C'' False True 1 3000]"

definition ex_two :: "(ident \<times> user) list" where
  "ex_two = [ex_user ''A'' True True 1 1000, ex_user ''B'' False True 0 2000]"



text \<open>
  The host \<open>A\<close> of three users, the second of them offline, faces a kick vote on which the
  other online user has voted yes.
\<close>

definition ex_kick_host :: server where
  "ex_kick_host = ex_server (ex_storage ex_three Waiting) [ex_vote ''v1'' ''A'' [(''C'', True)] None]"

text \<open>
  The spin's target \<open>B\<close> is under inactivity supervision since time 0, in phase \<open>choosing\<close>.
\<close>

definition ex_supervised :: server where
  "ex_supervised = startInactivityTimer (ex_socket ''A'') ''R'' ''B'' ''B''
                     (ex_server (ex_storage ex_two Choosing) [])"

text \<open>
  A room without activity since time 0, 31 minutes later, with one chat message that
  carries an uploaded file.
\<close>

definition ex_idle :: server where
  "ex_idle =
     (ex_server
        ((ex_storage ex_two Waiting)
           \<lparr>messages := [(''m1'', \<lparr>m_id = ''m1'', m_roomId = ''R'', m_userId = Some ''A'',
                                   m_username = ''A'', messageText = None,
                                   mediaUrl = Some ''/uploads/f.png'', mediaType = Some ''image'',
                                   m_createdAt = 0\<rparr>)]\<rparr>) [])
       \<lparr>uploads := [''f.png''], clock := 31 * 60 * 1000\<rparr>"

section \<open>Properties of the map operations and the state projections\<close>

lemma map_get_map_set:
  "map_get (map_set m k v) k' = (if k' = k then Some v else map_get m k')"
  by (induction m) (auto simp: map_get_def)

lemma map_get_map_delete:
  "map_get (map_delete m k) k' = (if k' = k then None else map_get m k')"
  by (induction m) (auto simp: map_get_def map_delete_def)

lemma map_delete_absent: "map_get m k = None \<Longrightarrow> map_delete m k = m"
  by (induction m) (auto simp: map_get_def map_delete_def split: if_splits)

lemma keys_map_set_present: "map_get m k = Some v' \<Longrightarrow> map fst (map_set m k v) = map fst m"
  by (induction m) (auto simp: map_get_def split: if_splits)

lemma keys_map_delete: "map fst (map_delete m k) = filter (\<lambda>k'. k' \<noteq> k) (map fst m)"
  by (induction m) (auto simp: map_delete_def)

lemma emit_simps:
  "store (emit e s) = store s" "activeVotes (emit e s) = activeVotes s"
  "timers (emit e s) = timers s" "inactivityTimers (emit e s) = inactivityTimers s"
  "outbox (emit e s) = outbox s @ [e]" "clock (emit e s) = clock s"
  "nextTimer (emit e s) = nextTimer s" "uploads (emit e s) = uploads s"
  by (simp_all add: emit_def)

lemma makeUserHost_keys: "map fst (users (makeUserHost i st)) = map fst (users st)"
  by (simp add: makeUserHost_def keys_map_set_present split: option.splits)

lemma makeUserHost_other:
  "kickedUsers (makeUserHost i st) = kickedUsers st" "rooms (makeUserHost i st) = rooms st"
  "gameStates (makeUserHost i st) = gameStates st" "messages (makeUserHost i st) = messages st"
  by (simp_all add: makeUserHost_def split: option.splits)

lemma updateRoomHost_other:
  "kickedUsers (updateRoomHost r i st) = kickedUsers st" "users (updateRoomHost r i st) = users st"
  "gameStates (updateRoomHost r i st) = gameStates st" "messages (updateRoomHost r i st) = messages st"
  by (simp_all add: updateRoomHost_def split: option.splits)

lemma kickReassignHost_simps:
  "map fst (users (store (kickReassignHost r u us s))) = map fst (users (store s))"
  "kickedUsers (store (kickReassignHost r u us s)) = kickedUsers (store s)"
  "gameStates (store (kickReassignHost r u us s)) = gameStates (store s)"
  "activeVotes (kickReassignHost r u us s) = activeVotes s"
  "timers (kickReassignHost r u us s) = timers s"
  by (simp_all add: kickReassignHost_def emit_simps makeUserHost_keys makeUserHost_other
      updateRoomHost_other split: list.splits)

lemma ballots_total:
  "length (filter (\<lambda>v. v) (map snd m)) + length (filter (\<lambda>v. \<not> v) (map snd m)) = length m"
  by (induction m) auto

lemma counts_total: "yesCount vd + noCount vd = length (votes vd)"
  unfolding yesCount_def noCount_def map_values_def by (rule ballots_total)

text \<open>In a well-formed users map the users of a room have distinct ids.\<close>

lemma wf_users_distinct_ids: "wf_users st \<Longrightarrow> distinct (map u_id (getUsersByRoom st roomId))"
proof -
  assume wf: "wf_users st"
  then have e: "map (\<lambda>e. u_id (snd e)) (users st) = map fst (users st)"
    by (simp add: wf_users_def list_all_iff)
  from wf have d: "distinct (map fst (users st))"
    by (simp add: wf_users_def)
  have "distinct (map (\<lambda>e. u_id (snd e)) (users st))"
    unfolding e by (rule d)
  then have "distinct (map u_id (map snd (users st)))"
    by (simp add: comp_def)
  then show ?thesis
    by (simp add: getUsersByRoom_def map_values_def distinct_map_filter)
qed

section \<open>Vote resolution\<close>

lemma resolveVote_absent:
  "map_get (activeVotes s) vid = None \<Longrightarrow> resolveVote sock uuid vid roomId s = s"
  by (simp add: resolveVote_def)

lemma activeVotes_resolveVote:
  "activeVotes (resolveVote sock uuid vid roomId s) = map_delete (activeVotes s) vid"
proof (cases "map_get (activeVotes s) vid")
  case None
  then show ?thesis by (simp add: resolveVote_absent map_delete_absent)
next
  case (Some vd)
  then show ?thesis
    by (simp add: resolveVote_def Let_def emit_simps kickReassignHost_simps
        split: option.splits)
qed


lemma resolveVote_outbox:
  assumes "map_get (activeVotes s) vid = Some vd"
  shows "last (outbox (resolveVote sock uuid vid roomId s)) =
           ToRoom roomId (VoteResolved vid (yesCount vd > noCount vd) (yesCount vd) (noCount vd))"
  using assms by (simp add: resolveVote_def Let_def emit_simps)

lemma resolveVote_kick:
  assumes "map_get (activeVotes s) vid = Some vd"
    and "yesCount vd > noCount vd" and "v_type vd = Kick"
    and "getUser (store s) (v_targetUserId vd) = Some u"
  shows "getUser (store (resolveVote sock uuid vid roomId s)) (v_targetUserId vd) = None"
    and "map fst (users (store (resolveVote sock uuid vid roomId s))) =
           filter (\<lambda>i. i \<noteq> v_targetUserId vd) (map fst (users (store s)))"
    and "kickedUsers (store (resolveVote sock uuid vid roomId s)) =
           map_set (kickedUsers (store s)) uuid
             \<lparr>k_id = uuid, k_roomId = roomId, ipAddress = sock_ip sock, k_username = username u,
              kickedAt = clock s, rejoinAttempts = 0, lastRejoinAttempt = None,
              isPermanentlyBlocked = False\<rparr>"
proof -
  let ?s' = "resolveVote sock uuid vid roomId s"
  show keys: "map fst (users (store ?s')) =
                filter (\<lambda>i. i \<noteq> v_targetUserId vd) (map fst (users (store s)))"
    using assms
    by (simp add: resolveVote_def Let_def emit_simps kickReassignHost_simps deleteUser_def
        createKickedUser_def keys_map_delete)
  have "v_targetUserId vd \<notin> set (map fst (users (store ?s')))"
    unfolding keys by simp
  then show "getUser (store ?s') (v_targetUserId vd) = None"
    by (simp add: getUser_def map_get_def map_of_eq_None_iff)
  show "kickedUsers (store ?s') = map_set (kickedUsers (store s)) uuid
             \<lparr>k_id = uuid, k_roomId = roomId, ipAddress = sock_ip sock, k_username = username u,
              kickedAt = clock s, rejoinAttempts = 0, lastRejoinAttempt = None,
              isPermanentlyBlocked = False\<rparr>"
    using assms
    by (simp add: resolveVote_def Let_def emit_simps kickReassignHost_simps deleteUser_def
        createKickedUser_def)
qed

lemma resolveVote_no_kick:
  assumes "map_get (activeVotes s) vid = Some vd"
    and "\<not> yesCount vd > noCount vd \<or> v_type vd \<noteq> Kick
         \<or> getUser (store s) (v_targetUserId vd) = None"
  shows "store (resolveVote sock uuid vid roomId s) = store s"
  using assms by (auto simp add: resolveVote_def Let_def emit_simps)

lemmas ex_defs =
  ex_server_def ex_storage_def ex_two_def ex_three_def ex_vote_def ex_user_def ex_socket_def
  ex_sd_def

lemmas storage_defs =
  map_get_def map_delete_def map_values_def getUser_def getUsersByRoom_def getGameState_def
  getRoom_def updateGameState_def updateUserSkips_def updateUserOnline_def makeUserHost_def
  updateRoomHost_def deleteUser_def createKickedUser_def truthy_def str_of_def emit_def

text \<open>
  C2, as the code has it. Resolving an active vote broadcasts \<open>vote_resolved\<close> last, with
  \<open>passed\<close> true exactly when the yes ballots outnumber the no ballots (only cast ballots
  are counted) and with both counts, and discards the vote. When the vote passed, is a kick
  vote and its target is still a stored user, the target is removed from the users (every
  other user stays) and a ban record with the room, the address of the resolving
  connection and the target's name is stored. In every other case, also when a passed kick
  vote's target is no longer stored, the storage is left as it was.
\<close>

theorem resolveVote_outcome:
  assumes "map_get (activeVotes s) vid = Some vd"
  shows "(let s' = resolveVote sock uuid vid roomId s;
              passed = (yesCount vd > noCount vd)
          in last (outbox s') = ToRoom roomId (VoteResolved vid passed (yesCount vd) (noCount vd))
             \<and> map_get (activeVotes s') vid = None
             \<and> yesCount vd + noCount vd = length (votes vd)
             \<and> (case getUser (store s) (v_targetUserId vd) of
                  None \<Rightarrow> store s' = store s
                | Some u \<Rightarrow>
                    if passed \<and> v_type vd = Kick then
                      getUser (store s') (v_targetUserId vd) = None
                      \<and> map fst (users (store s')) =
                          filter (\<lambda>i. i \<noteq> v_targetUserId vd) (map fst (users (store s)))
                      \<and> kickedUsers (store s') =
                          map_set (kickedUsers (store s)) uuid
                            \<lparr>k_id = uuid, k_roomId = roomId, ipAddress = sock_ip sock,
                             k_username = username u, kickedAt = clock s, rejoinAttempts = 0,
                             lastRejoinAttempt = None, isPermanentlyBlocked = False\<rparr>
                    else store s' = store s))"
proof (cases "getUser (store s) (v_targetUserId vd)")
  case None
  with assms show ?thesis
    by (simp add: Let_def resolveVote_outbox activeVotes_resolveVote map_get_map_delete
        counts_total resolveVote_no_kick)
next
  case (Some u)
  show ?thesis
  proof (cases "yesCount vd > noCount vd \<and> v_type vd = Kick")
    case True
    with assms Some show ?thesis
      by (simp add: Let_def resolveVote_outbox activeVotes_resolveVote map_get_map_delete
          counts_total resolveVote_kick)
  next
    case False
    then have "store (resolveVote sock uuid vid roomId s) = store s"
      using assms resolveVote_no_kick by blast
    with assms Some False show ?thesis
      by (simp add: Let_def resolveVote_outbox activeVotes_resolveVote map_get_map_delete
          counts_total)
  qed
qed

theorem resolveVote_outcome_witness:
  "map_get (activeVotes (ex_server (ex_storage ex_two Waiting)
       [ex_vote ''v1'' ''B'' [(''A'', True)] None])) ''v1''
     = Some (snd (ex_vote ''v1'' ''B'' [(''A'', True)] None))
   \<and> last (outbox (resolveVote (ex_socket ''A'') ''k1'' ''v1'' ''R''
        (ex_server (ex_storage ex_two Waiting) [ex_vote ''v1'' ''B'' [(''A'', True)] None])))
     = ToRoom ''R'' (VoteResolved ''v1'' True 1 0)
   \<and> map fst (users (store (resolveVote (ex_socket ''A'') ''k1'' ''v1'' ''R''
        (ex_server (ex_storage ex_two Waiting) [ex_vote ''v1'' ''B'' [(''A'', True)] None]))))
     = [''A'']
   \<and> map fst (kickedUsers (store (resolveVote (ex_socket ''A'') ''k1'' ''v1'' ''R''
        (ex_server (ex_storage ex_two Waiting) [ex_vote ''v1'' ''B'' [(''A'', True)] None]))))
     = [''k1'']"
proof -
  have h: "map_get (activeVotes (ex_server (ex_storage ex_two Waiting)
       [ex_vote ''v1'' ''B'' [(''A'', True)] None])) ''v1''
     = Some (snd (ex_vote ''v1'' ''B'' [(''A'', True)] None))"
    by (simp add: ex_defs map_get_def)
  show ?thesis
    using h resolveVote_outcome [OF h, of "ex_socket ''A''" "''k1''" "''R''"]
    by (simp add: Let_def ex_defs storage_defs yesCount_def noCount_def)
qed

text \<open>
  C2 as stated fails: a kick vote whose target is no longer stored (an earlier vote against
  the same user has removed it) is resolved as passed, and no ban record is created.
\<close>

theorem resolveVote_ban_counterexample:
  "yesCount (snd (ex_vote ''v2'' ''C'' [(''A'', True), (''B'', True)] None))
     > noCount (snd (ex_vote ''v2'' ''C'' [(''A'', True), (''B'', True)] None))
   \<and> v_type (snd (ex_vote ''v2'' ''C'' [(''A'', True), (''B'', True)] None)) = Kick
   \<and> outbox (resolveVote (ex_socket ''A'') ''k1'' ''v2'' ''R''
        (ex_server (ex_storage ex_two Waiting)
           [ex_vote ''v2'' ''C'' [(''A'', True), (''B'', True)] None]))
     = [ToRoom ''R'' (VoteResolved ''v2'' True 2 0)]
   \<and> kickedUsers (store (resolveVote (ex_socket ''A'') ''k1'' ''v2'' ''R''
        (ex_server (ex_storage ex_two Waiting)
           [ex_vote ''v2'' ''C'' [(''A'', True), (''B'', True)] None]))) = []"
  by (simp add: resolveVote_def ex_defs storage_defs yesCount_def noCount_def)

text \<open>
  C10. The first resolution removes the vote from \<open>activeVotes\<close>, so resolving the same
  vote id again, from a late timeout callback or from any connection, returns the state
  as it is: nothing is stored and nothing is emitted.
\<close>

theorem resolveVote_resolved_noop:
  "map_get (activeVotes (resolveVote sock uuid vid roomId s)) vid = None
   \<and> resolveVote sock' uuid' vid roomId' (resolveVote sock uuid vid roomId s)
       = resolveVote sock uuid vid roomId s
   \<and> run_callback uuid' (VoteTimeout sock' vid roomId') (resolveVote sock uuid vid roomId s)
       = resolveVote sock uuid vid roomId s"
  by (simp add: resolveVote_absent activeVotes_resolveVote map_get_map_delete)

theorem resolveVote_resolved_noop_witness:
  "run_callback ''k2'' (VoteTimeout (ex_socket ''A'') ''v1'' ''R'')
     (resolveVote (ex_socket ''B'') ''k1'' ''v1'' ''R''
        (ex_server (ex_storage ex_two Waiting) [ex_vote ''v1'' ''B'' [(''A'', True)] (Some 0)]))
   = resolveVote (ex_socket ''B'') ''k1'' ''v1'' ''R''
        (ex_server (ex_storage ex_two Waiting) [ex_vote ''v1'' ''B'' [(''A'', True)] (Some 0)])"
  using resolveVote_resolved_noop
    [of "ex_socket ''B''" "''k1''" "''v1''" "''R''"
        "ex_server (ex_storage ex_two Waiting) [ex_vote ''v1'' ''B'' [(''A'', True)] (Some 0)]"
        "ex_socket ''A''" "''k2''" "''R''"]
  by simp

section \<open>The phase after a game event\<close>

lemma find_map_set:
  "find P (map snd m) = Some g \<Longrightarrow> P g' \<Longrightarrow>
   find P (map snd (map_set m k g')) = Some g \<or> find P (map snd (map_set m k g')) = Some g'"
  by (induction m) (auto split: if_splits)

lemma phase_updateGameState:
  assumes "\<And>g. g_roomId (upd g) = g_roomId g" and "\<And>g. gamePhase (upd g) = p"
  shows "map_option gamePhase (getGameState (updateGameState t r upd st) r)
           = map_option gamePhase (getGameState st r)
         \<or> (getGameState st r \<noteq> None \<and>
            map_option gamePhase (getGameState (updateGameState t r upd st) r) = Some p)"
proof (cases "getGameState st r")
  case None
  then show ?thesis by (simp add: updateGameState_def)
next
  case (Some g)
  then have f: "find (\<lambda>gs. g_roomId gs = r) (map snd (gameStates st)) = Some g"
    by (simp add: getGameState_def map_values_def)
  then have "g_roomId g = r"
    by (auto simp: find_Some_iff)
  then have "g_roomId ((upd g)\<lparr>updatedAt := t\<rparr>) = r"
    using assms(1) by simp
  from find_map_set [OF f, of "(upd g)\<lparr>updatedAt := t\<rparr>" "g_id g", OF this] Some
  show ?thesis
    by (auto simp: updateGameState_def getGameState_def map_values_def assms(2))
qed

lemma store_timer_ops:
  "store (clearTimeout h s) = store s"
  "store (snd (setTimeout cb d s)) = store s"
  "store (clearInactivityTimer u s) = store s"
  "store (startInactivityTimer sock r u n s) = store s"
  by (simp_all add: clearTimeout_def setTimeout_def clearInactivityTimer_def
      startInactivityTimer_def Let_def split: option.splits prod.splits)

lemma clock_timer_ops:
  "clock (clearTimeout h s) = clock s"
  "clock (snd (setTimeout cb d s)) = clock s"
  "clock (clearInactivityTimer u s) = clock s"
  by (simp_all add: clearTimeout_def setTimeout_def clearInactivityTimer_def
      split: option.splits)

lemma find_map_set_wf:
  assumes "list_all (\<lambda>e. fst e = f (snd e)) m" and "find P (map snd m) = Some g" and "P g'"
  shows "find P (map snd (map_set m (f g) g')) = Some g'"
  using assms by (induction m) (auto split: if_splits)

lemma updateGameState_wf:
  assumes "wf_gameStates st" and "getGameState st r = Some g"
    and "g_roomId (upd g) = g_roomId g"
  shows "getGameState (updateGameState t r upd st) r = Some ((upd g)\<lparr>updatedAt := t\<rparr>)"
proof -
  from assms(2) have f: "find (\<lambda>gs. g_roomId gs = r) (map snd (gameStates st)) = Some g"
    by (simp add: getGameState_def map_values_def)
  then have "g_roomId g = r" by (auto simp: find_Some_iff)
  with assms(3) have "g_roomId ((upd g)\<lparr>updatedAt := t\<rparr>) = r" by simp
  from find_map_set_wf [OF assms(1) [unfolded wf_gameStates_def] f, of "(upd g)\<lparr>updatedAt := t\<rparr>", OF this]
  show ?thesis
    using assms(2) by (simp add: updateGameState_def getGameState_def map_values_def)
qed

lemma phase_spin:
  "phase_of (spin_bottle sock sd r1 r2 roomId s) roomId = phase_of s roomId
   \<or> (phase_of s roomId \<noteq> None \<and> phase_of (spin_bottle sock sd r1 r2 roomId s) roomId = Some Spinning)"
  using phase_updateGameState [of "\<lambda>g. g\<lparr>gamePhase := Spinning, targetUserId := Some x\<rparr>" Spinning "clock s" roomId "store s" for x]
  by (auto simp add: spin_bottle_def phase_of_def Let_def emit_simps store_timer_ops split: option.splits)

lemma phase_choose:
  "phase_of (choose_truth_or_dare sock sd roomId ch s) roomId = phase_of s roomId
   \<or> (phase_of s roomId \<noteq> None \<and> phase_of (choose_truth_or_dare sock sd roomId ch s) roomId = Some Asking)"
  using phase_updateGameState [of "\<lambda>g. g\<lparr>gamePhase := Asking, g_choice := Some ch\<rparr>" Asking "clock s" roomId "store s"]
  by (auto simp add: choose_truth_or_dare_def phase_of_def Let_def emit_simps store_timer_ops clock_timer_ops split: option.splits)

lemma phase_submit:
  "phase_of (submit_question sock sd roomId txt s) roomId = phase_of s roomId
   \<or> (phase_of s roomId \<noteq> None \<and> phase_of (submit_question sock sd roomId txt s) roomId = Some Answering)"
  using phase_updateGameState [of "\<lambda>g. g\<lparr>gamePhase := Answering, questionText := Some txt\<rparr>" Answering "clock s" roomId "store s"]
  by (auto simp add: submit_question_def phase_of_def Let_def emit_simps store_timer_ops clock_timer_ops split: option.splits)

lemma phase_next:
  "phase_of (next_turn sock sd roomId s) roomId = phase_of s roomId
   \<or> (phase_of s roomId \<noteq> None \<and> phase_of (next_turn sock sd roomId s) roomId = written_phase s roomId Next_turn)"
  using phase_updateGameState [of "\<lambda>g. g\<lparr>currentTurnUserId := Some x, targetUserId := None,
                              gamePhase := (if length (filter isOnline (getUsersByRoom (store s) roomId)) = 2 then Choosing else Waiting),
                              questionText := None, g_choice := None\<rparr>" "if length (filter isOnline (getUsersByRoom (store s) roomId)) = 2 then Choosing else Waiting" "clock s" roomId "store s" for x]
  by (auto simp add: next_turn_def phase_of_def Let_def emit_simps split: option.splits)

lemma gameStates_updateUserSkips: "gameStates (updateUserSkips u n st) = gameStates st"
  by (simp add: updateUserSkips_def split: option.splits)

lemma phase_skip: "phase_of (use_skip sock sd roomId s) roomId = phase_of s roomId"
  by (simp add: use_skip_def phase_of_def Let_def emit_simps getGameState_def gameStates_updateUserSkips split: option.splits)

text \<open>
  C1, as the code has it. No handler reads the current phase. After a game event the
  phase of the event's room is either what it was or the phase that the event's handler
  writes whatever the current phase is: \<open>spinning\<close> for \<open>spin_bottle\<close>, \<open>asking\<close> for
  \<open>choose_truth_or_dare\<close>, \<open>answering\<close> for \<open>submit_question\<close>, and for \<open>next_turn\<close>
  and \<open>use_skip\<close> \<open>choosing\<close> when exactly two users are online and \<open>waiting\<close> otherwise.
  In particular \<open>choose_truth_or_dare\<close> and \<open>submit_question\<close> from a caller who has
  joined are never rejected: in every phase they move the room to \<open>asking\<close> and to
  \<open>answering\<close>.
\<close>

theorem phase_after_event:
  "(phase_of (handle_event sock sd roomId ev s) roomId = phase_of s roomId
    \<or> (phase_of s roomId \<noteq> None
       \<and> phase_of (handle_event sock sd roomId ev s) roomId = written_phase s roomId ev))
   \<and> (wf_gameStates (store s) \<and> phase_of s roomId \<noteq> None \<and> truthy (sd_userId sd) \<longrightarrow>
        phase_of (handle_event sock sd roomId (Choose_truth_or_dare ch) s) roomId = Some Asking
        \<and> phase_of (handle_event sock sd roomId (Submit_question q) s) roomId = Some Answering)"
proof (intro conjI impI)
  assume a: "wf_gameStates (store s) \<and> phase_of s roomId \<noteq> None \<and> truthy (sd_userId sd)"
  then obtain g where g: "getGameState (store s) roomId = Some g"
    by (auto simp: phase_of_def)
  from a have w: "wf_gameStates (store (clearInactivityTimer (str_of (sd_userId sd)) s))"
    by (simp add: store_timer_ops)
  from g have g': "getGameState (store (clearInactivityTimer (str_of (sd_userId sd)) s)) roomId = Some g"
    by (simp add: store_timer_ops)
  show "phase_of (handle_event sock sd roomId (Choose_truth_or_dare ch) s) roomId = Some Asking"
    using a updateGameState_wf [OF w g', of "\<lambda>g. g\<lparr>gamePhase := Asking, g_choice := Some ch\<rparr>"]
    by (simp add: choose_truth_or_dare_def phase_of_def Let_def emit_simps store_timer_ops
        split: option.splits)
  show "phase_of (handle_event sock sd roomId (Submit_question q) s) roomId = Some Answering"
    using a updateGameState_wf [OF w g', of "\<lambda>g. g\<lparr>gamePhase := Answering, questionText := Some q\<rparr>"]
    by (simp add: submit_question_def phase_of_def Let_def emit_simps store_timer_ops)
next
  show "phase_of (handle_event sock sd roomId ev s) roomId = phase_of s roomId
    \<or> (phase_of s roomId \<noteq> None
       \<and> phase_of (handle_event sock sd roomId ev s) roomId = written_phase s roomId ev)"
  proof (cases ev)
  case (Spin_bottle r1 r2)
  then show ?thesis using phase_spin [of sock sd r1 r2 roomId s] by simp
next
  case (Choose_truth_or_dare ch)
  then show ?thesis using phase_choose [of sock sd roomId ch s] by simp
next
  case (Submit_question question)
  then show ?thesis using phase_submit [of sock sd roomId question s] by simp
next
  case Next_turn
  then show ?thesis using phase_next [of sock sd roomId s] by simp
next
    case Use_skip
    then show ?thesis by (simp add: phase_skip)
  qed
qed

text \<open>
  C1 as stated fails: \<open>choose_truth_or_dare\<close> in phase \<open>waiting\<close> is not rejected and
  moves the room to \<open>asking\<close>, which is not an edge of the diagram.
\<close>

theorem phase_edge_counterexample:
  "phase_of (ex_server (ex_storage ex_two Waiting) []) ''R'' = Some Waiting
   \<and> phase_of (handle_event (ex_socket ''B'') (ex_sd ''B'') ''R'' (Choose_truth_or_dare Truth)
        (ex_server (ex_storage ex_two Waiting) [])) ''R'' = Some Asking
   \<and> \<not> spec_edge Waiting Asking"
  by (simp add: phase_of_def choose_truth_or_dare_def clearInactivityTimer_def startInactivityTimer_def
      setTimeout_def ex_defs storage_defs Let_def)

theorem phase_after_event_witness:
  "phase_of (ex_server (ex_storage ex_two Answering) []) ''R'' = Some Answering
   \<and> phase_of (handle_event (ex_socket ''B'') (ex_sd ''B'') ''R'' Next_turn
        (ex_server (ex_storage ex_two Answering) [])) ''R'' = Some Choosing
   \<and> wf_gameStates (store (ex_server (ex_storage ex_two Answering) []))
   \<and> truthy (sd_userId (ex_sd ''B''))
   \<and> phase_of (handle_event (ex_socket ''B'') (ex_sd ''B'') ''R'' (Choose_truth_or_dare Dare)
        (ex_server (ex_storage ex_two Answering) [])) ''R'' = Some Asking"
proof -
  have h: "wf_gameStates (store (ex_server (ex_storage ex_two Answering) []))
           \<and> phase_of (ex_server (ex_storage ex_two Answering) []) ''R'' \<noteq> None
           \<and> truthy (sd_userId (ex_sd ''B''))"
    by (simp add: wf_gameStates_def phase_of_def ex_defs storage_defs)
  have n: "phase_of (handle_event (ex_socket ''B'') (ex_sd ''B'') ''R'' Next_turn
             (ex_server (ex_storage ex_two Answering) [])) ''R'' = Some Choosing"
    by (simp add: phase_of_def next_turn_def ex_defs storage_defs Let_def)
  from phase_after_event [where sock = "ex_socket ''B''" and sd = "ex_sd ''B''"
      and roomId = "''R''" and ev = Next_turn and ch = Dare and q = "''?''"
      and s = "ex_server (ex_storage ex_two Answering) []"] h n
  show ?thesis
    by (simp add: phase_of_def ex_defs storage_defs)
qed

section \<open>Casting ballots\<close>

lemma keys_map_set:
  "map fst (map_set m k v) = (if k \<in> set (map fst m) then map fst m else map fst m @ [k])"
  by (induction m) (auto simp: rev_image_eqI)

lemma distinct_map_set: "distinct (map fst m) \<Longrightarrow> distinct (map fst (map_set m k v))"
  by (simp add: keys_map_set)

lemma cast_vote_unjoined: "\<not> truthy (sd_userId sd) \<Longrightarrow> cast_vote sock sd uuid vid v roomId s = s"
  by (simp add: cast_vote_def)

lemma cast_vote_absent: "map_get (activeVotes s) vid = None \<Longrightarrow> cast_vote sock sd uuid vid v roomId s = s"
  by (simp add: cast_vote_def)


lemma cast_vote_resolves:
  assumes "truthy (sd_userId sd)" and "map_get (activeVotes s) vid = Some vd"
    and "length (map_set (votes vd) (str_of (sd_userId sd)) v) \<ge> eligibleVoters (store s) roomId vd"
  shows "cast_vote sock sd uuid vid v roomId s =
           resolveVote sock uuid vid roomId
             ((case timer vd of None \<Rightarrow> (\<lambda>x. x) | Some h \<Rightarrow> clearTimeout h)
                (emit (ToRoom roomId (VoteUpdated vid
                    (yesCount (vd\<lparr>votes := map_set (votes vd) (str_of (sd_userId sd)) v\<rparr>))
                    (noCount (vd\<lparr>votes := map_set (votes vd) (str_of (sd_userId sd)) v\<rparr>))))
                  (s\<lparr>activeVotes := map_set (activeVotes s) vid
                       (vd\<lparr>votes := map_set (votes vd) (str_of (sd_userId sd)) v\<rparr>)\<rparr>)))"
  using assms
  by (simp add: cast_vote_def Let_def emit_simps eligibleVoters_def split: option.splits)

lemma cast_vote_pending:
  assumes "truthy (sd_userId sd)" and "map_get (activeVotes s) vid = Some vd"
    and "length (map_set (votes vd) (str_of (sd_userId sd)) v) < eligibleVoters (store s) roomId vd"
  shows "cast_vote sock sd uuid vid v roomId s =
           emit (ToRoom roomId (VoteUpdated vid
                    (yesCount (vd\<lparr>votes := map_set (votes vd) (str_of (sd_userId sd)) v\<rparr>))
                    (noCount (vd\<lparr>votes := map_set (votes vd) (str_of (sd_userId sd)) v\<rparr>))))
                  (s\<lparr>activeVotes := map_set (activeVotes s) vid
                       (vd\<lparr>votes := map_set (votes vd) (str_of (sd_userId sd)) v\<rparr>)\<rparr>)"
  using assms
  by (simp add: cast_vote_def Let_def emit_simps eligibleVoters_def split: option.splits)

lemma cast_vote_step:
  assumes "map_get (activeVotes (cast_vote sock sd uuid vid v roomId s)) vid = Some vd2"
  shows "\<exists>vd. map_get (activeVotes s) vid = Some vd
           \<and> vd2 = (if truthy (sd_userId sd)
                    then vd\<lparr>votes := map_set (votes vd) (str_of (sd_userId sd)) v\<rparr> else vd)"
proof (cases "truthy (sd_userId sd)")
  case False
  with assms show ?thesis by (simp add: cast_vote_unjoined)
next
  case True
  show ?thesis
  proof (cases "map_get (activeVotes s) vid")
    case None
    with assms show ?thesis by (simp add: cast_vote_absent)
  next
    case (Some vd)
    show ?thesis
    proof (cases "length (map_set (votes vd) (str_of (sd_userId sd)) v) \<ge> eligibleVoters (store s) roomId vd")
      case resolved: True
      have "map_get (activeVotes (cast_vote sock sd uuid vid v roomId s)) vid = None"
        unfolding cast_vote_resolves [OF True Some resolved]
        by (simp add: activeVotes_resolveVote map_get_map_delete)
      with assms show ?thesis by simp
    next
      case False
      then have "length (map_set (votes vd) (str_of (sd_userId sd)) v) < eligibleVoters (store s) roomId vd"
        by simp
      from cast_vote_pending [OF True Some this] assms True Some show ?thesis
        by (simp add: emit_simps map_get_map_set)
    qed
  qed
qed

text \<open>
  C4, as the code has it. \<open>cast_vote\<close> writes the ballot with \<open>votes.set\<close>, so a voter has
  at most one ballot on a vote and a later cast by the same voter replaces the earlier
  one: while the vote is active, after any sequence of \<open>cast_vote\<close> events each voter's
  recorded ballot is the value of their last cast (and the ballot they had before, if they
  cast none).
\<close>

theorem cast_votes_last_ballot:
  assumes "map_get (activeVotes (cast_votes sock uuid vid roomId cs s)) vid = Some vd'"
  shows "\<exists>vd. map_get (activeVotes s) vid = Some vd
           \<and> (distinct (map fst (votes vd)) \<longrightarrow> distinct (map fst (votes vd')))
           \<and> (\<forall>voter. map_get (votes vd') voter =
                 (case last_cast voter cs of
                    Some v \<Rightarrow> Some v
                  | None \<Rightarrow> map_get (votes vd) voter))"
  using assms
proof (induction cs arbitrary: s)
  case Nil
  then show ?case by simp
next
  case (Cons c cs)
  obtain sd v where c: "c = (sd, v)" by (cases c)
  let ?s1 = "cast_vote sock sd uuid vid v roomId s"
  from Cons.prems c have "map_get (activeVotes (cast_votes sock uuid vid roomId cs ?s1)) vid = Some vd'"
    by simp
  from Cons.IH [OF this] obtain vd1 where
    vd1: "map_get (activeVotes ?s1) vid = Some vd1"
    and d1: "distinct (map fst (votes vd1)) \<longrightarrow> distinct (map fst (votes vd'))"
    and l1: "\<forall>voter. map_get (votes vd') voter =
                 (case last_cast voter cs of Some v \<Rightarrow> Some v | None \<Rightarrow> map_get (votes vd1) voter)"
    by blast
  from cast_vote_step [OF vd1] obtain vd where
    vd: "map_get (activeVotes s) vid = Some vd"
    and eq: "vd1 = (if truthy (sd_userId sd)
                    then vd\<lparr>votes := map_set (votes vd) (str_of (sd_userId sd)) v\<rparr> else vd)"
    by blast
  have "distinct (map fst (votes vd)) \<longrightarrow> distinct (map fst (votes vd'))"
    using d1 eq by (simp add: distinct_map_set split: if_splits)
  moreover have "\<forall>voter. map_get (votes vd') voter =
                 (case last_cast voter (c # cs) of Some v \<Rightarrow> Some v | None \<Rightarrow> map_get (votes vd) voter)"
    using l1 eq c by (auto simp: map_get_map_set split: option.splits)
  ultimately show ?case using vd by blast
qed

theorem cast_votes_last_ballot_witness:
  "map_get (activeVotes (cast_votes (ex_socket ''A'') ''k1'' ''v1'' ''R''
        [(ex_sd ''A'', True), (ex_sd ''A'', False)]
        (ex_server (ex_storage ex_three Waiting) [ex_vote ''v1'' ''C'' [] None]))) ''v1''
     = Some (snd (ex_vote ''v1'' ''C'' [(''A'', False)] None))
   \<and> map_get (votes (snd (ex_vote ''v1'' ''C'' [(''A'', False)] None))) ''A''
     = last_cast ''A'' [(ex_sd ''A'', True), (ex_sd ''A'', False)]"
proof -
  have h: "map_get (activeVotes (cast_votes (ex_socket ''A'') ''k1'' ''v1'' ''R''
        [(ex_sd ''A'', True), (ex_sd ''A'', False)]
        (ex_server (ex_storage ex_three Waiting) [ex_vote ''v1'' ''C'' [] None]))) ''v1''
     = Some (snd (ex_vote ''v1'' ''C'' [(''A'', False)] None))"
    by (simp add: cast_vote_def eligibleVoters_def yesCount_def noCount_def Let_def
        ex_defs storage_defs)
  have e: "map_get (votes (snd (ex_vote ''v1'' ''C'' [(''A'', False)] None))) ''A''
     = last_cast ''A'' [(ex_sd ''A'', True), (ex_sd ''A'', False)]"
    by (simp add: ex_defs storage_defs)
  from cast_votes_last_ballot [OF h] h e show ?thesis
    by blast
qed

text \<open>
  C4 as stated fails: a second cast by the same voter is not rejected; it overwrites the
  first ballot.
\<close>

theorem cast_vote_first_ballot_counterexample:
  "map_option votes (map_get (activeVotes
      (cast_vote (ex_socket ''A'') (ex_sd ''A'') ''k1'' ''v1'' True ''R''
         (ex_server (ex_storage ex_three Waiting) [ex_vote ''v1'' ''C'' [] None]))) ''v1'')
     = Some [(''A'', True)]
   \<and> map_option votes (map_get (activeVotes
      (cast_vote (ex_socket ''A'') (ex_sd ''A'') ''k1'' ''v1'' False ''R''
        (cast_vote (ex_socket ''A'') (ex_sd ''A'') ''k1'' ''v1'' True ''R''
           (ex_server (ex_storage ex_three Waiting) [ex_vote ''v1'' ''C'' [] None])))) ''v1'')
     = Some [(''A'', False)]"
  by (simp add: cast_vote_def eligibleVoters_def yesCount_def noCount_def Let_def
      ex_defs storage_defs)

section \<open>Quorum and timeout of a vote\<close>














section \<open>Skips\<close>

lemma getUser_updateUserSkips:
  "getUser st i = Some u \<Longrightarrow>
   getUser (updateUserSkips i n st) j = (if j = i then Some (u\<lparr>skipsRemaining := n\<rparr>) else getUser st j)"
  by (simp add: updateUserSkips_def getUser_def map_get_map_set)

text \<open>
  The subtraction is exact as long as its result is below \<open>2^53\<close> in magnitude. Above
  that it rounds: one less than \<open>2^53 + 2\<close> is \<open>2^53\<close>.
\<close>

lemma js_sub_exact: "\<bar>a - b\<bar> < 2 ^ 53 \<Longrightarrow> js_sub a b = a - b"
  by (auto simp: js_sub_def to_double_def round_double_def nat_less_iff)

lemma js_sub_rounds: "js_sub 9007199254740994 1 = 9007199254740992"
  by (simp add: js_sub_def to_double_def round_double_def Let_def)

text \<open>
  C5, as the code has it. \<open>use_skip\<close> looks only at the caller's own skip count, not at the
  phase or the target. A caller who has not joined is ignored. A caller whose user record
  is missing or has no skip left gets the error \<open>No skips remaining\<close> and nothing else
  changes. Otherwise the caller's skip count becomes the JavaScript difference of the count
  and one, which for a count up to \<open>2^53\<close> is the count less one; every other user stays as
  it is, and \<open>user_used_skip\<close> is broadcast.
\<close>

theorem use_skip_effect:
  "(\<not> truthy (sd_userId sd) \<longrightarrow> use_skip sock sd roomId s = s)
   \<and> (truthy (sd_userId sd) \<longrightarrow>
       (case getUser (store s) (str_of (sd_userId sd)) of
          None \<Rightarrow> use_skip sock sd roomId s
                    = emit (ToSocket (sock_id sock) (Error ''No skips remaining'')) s
        | Some u \<Rightarrow>
            if skipsRemaining u \<le> 0 then
              use_skip sock sd roomId s
                = emit (ToSocket (sock_id sock) (Error ''No skips remaining'')) s
            else
              (\<forall>j. getUser (store (use_skip sock sd roomId s)) j =
                 (if j = str_of (sd_userId sd)
                  then Some (u\<lparr>skipsRemaining := js_sub (skipsRemaining u) 1\<rparr>)
                  else getUser (store s) j))
              \<and> (skipsRemaining u \<le> 2 ^ 53 \<longrightarrow>
                   getUser (store (use_skip sock sd roomId s)) (str_of (sd_userId sd)) =
                     Some (u\<lparr>skipsRemaining := skipsRemaining u - 1\<rparr>))
              \<and> (\<exists>n us. ToRoom roomId (UserUsedSkip (sd_userId sd) (sd_username sd) n us)
                           \<in> set (outbox (use_skip sock sd roomId s)))))"
  by (auto simp add: use_skip_def Let_def emit_simps getUser_updateUserSkips js_sub_exact
      split: option.splits)

theorem use_skip_effect_witness:
  "truthy (sd_userId (ex_sd ''B''))
   \<and> use_skip (ex_socket ''B'') (ex_sd ''B'') ''R'' (ex_server (ex_storage ex_two Choosing) [])
     = emit (ToSocket ''B'' (Error ''No skips remaining'')) (ex_server (ex_storage ex_two Choosing) [])
   \<and> truthy (sd_userId (ex_sd ''A''))
   \<and> skipsRemaining (snd (ex_user ''A'' True True 1 1000)) \<le> 2 ^ 53
   \<and> map_option skipsRemaining (getUser (store
        (use_skip (ex_socket ''A'') (ex_sd ''A'') ''R'' (ex_server (ex_storage ex_two Choosing) [])))
        ''A'') = Some 0"
  using use_skip_effect [of "ex_sd ''B''" "ex_socket ''B''" "''R''"
      "ex_server (ex_storage ex_two Choosing) []"]
    use_skip_effect [of "ex_sd ''A''" "ex_socket ''A''" "''R''"
      "ex_server (ex_storage ex_two Choosing) []"]
  by (simp add: ex_defs storage_defs js_sub_exact)

text \<open>
  C5 as stated fails: in phase \<open>waiting\<close>, with no target, a caller with one skip left
  uses it.
\<close>

theorem use_skip_any_phase_counterexample:
  "phase_of (ex_server (ex_storage ex_two Waiting) []) ''R'' = Some Waiting
   \<and> map_option targetUserId (getGameState (store (ex_server (ex_storage ex_two Waiting) [])) ''R'')
       = Some None
   \<and> map_option skipsRemaining (getUser (store (ex_server (ex_storage ex_two Waiting) [])) ''A'')
       = Some 1
   \<and> map_option skipsRemaining (getUser (store
        (use_skip (ex_socket ''A'') (ex_sd ''A'') ''R'' (ex_server (ex_storage ex_two Waiting) [])))
        ''A'') = Some 0
   \<and> outbox (use_skip (ex_socket ''A'') (ex_sd ''A'') ''R'' (ex_server (ex_storage ex_two Waiting) []))
       \<noteq> [ToSocket ''A'' (Error ''No skips remaining'')]"
  by (simp add: use_skip_def phase_of_def Let_def ex_defs storage_defs js_sub_exact)

section \<open>Spinning the bottle\<close>

lemma pick_in_range:
  assumes "0 \<le> r" and "r < 1" and "xs \<noteq> []"
  shows "\<exists>x \<in> set xs. pick xs r = Some x"
proof -
  let ?n = "real (length xs)"
  have n: "0 < ?n" using assms(3) by simp
  have "0 \<le> r * ?n" using assms(1) by simp
  then have lo: "0 \<le> \<lfloor>r * ?n\<rfloor>" by simp
  have "r * ?n < ?n" using assms(2) n by simp
  then have "\<lfloor>r * ?n\<rfloor> < int (length xs)"
    by (simp add: floor_less_iff)
  with lo have "nat \<lfloor>r * ?n\<rfloor> < length xs" by linarith
  with lo show ?thesis by (auto simp: pick_def Let_def)
qed

lemma others_nonempty:
  assumes "distinct (map f xs)" and "2 \<le> length xs"
  shows "filter (\<lambda>x. f x \<noteq> a) xs \<noteq> []"
proof
  assume "filter (\<lambda>x. f x \<noteq> a) xs = []"
  then have all: "\<forall>x \<in> set xs. f x = a" by (simp add: filter_empty_conv)
  from assms(2) obtain x y zs where xs: "xs = x # y # zs"
    by (cases xs; cases "tl xs") auto
  with all have "f x = f y" by simp
  with assms(1) xs show False by simp
qed

text \<open>
  C7. For a caller who has joined, with the two random numbers in \<open>[0, 1)\<close> as
  \<open>Math.random()\<close> returns them: with fewer than two users of the room online the handler
  only sends the error \<open>Not enough players\<close> to the caller; otherwise the target is one of
  the room's online users, is not the spinner, the broadcast duration is 2000, 4500 or
  7000, the game state gets phase \<open>spinning\<close> and the target, and the spin's resolution is
  set for the duration plus one second later.
\<close>

theorem spin_bottle_outcome:
  assumes "truthy (sd_userId sd)" and "truthy (sd_roomId sd)"
    and "0 \<le> r1" and "r1 < 1" and "0 \<le> r2" and "r2 < 1"
    and "wf_users (store s)"
  shows "(let onlineUsers = filter isOnline (getUsersByRoom (store s) roomId);
              s' = spin_bottle sock sd r1 r2 roomId s
          in if length onlineUsers < 2 then
               s' = emit (ToSocket (sock_id sock) (Error ''Not enough players'')) s
             else
               (\<exists>target \<in> set onlineUsers. \<exists>d \<in> {2000, 4500, 7000}.
                  Some (u_id target) \<noteq> sd_userId sd
                  \<and> outbox s' = outbox s @
                       [ToRoom roomId (BottleSpinning (u_id target) (Some d) (sd_userId sd))]
                  \<and> store s' = updateGameState (clock s) roomId
                       (\<lambda>g. g\<lparr>gamePhase := Spinning, targetUserId := Some (u_id target)\<rparr>)
                       (store s)
                  \<and> timers s' = timers s @
                       [(nextTimer s, clock s + d + 1000,
                         SpinResolve sock roomId (u_id target) (username target))]))"
proof (cases "length (filter isOnline (getUsersByRoom (store s) roomId)) < 2")
  case True
  with assms(1,2) show ?thesis by (simp add: spin_bottle_def Let_def)
next
  case False
  let ?online = "filter isOnline (getUsersByRoom (store s) roomId)"
  let ?others = "filter (\<lambda>u. Some (u_id u) \<noteq> sd_userId sd) ?online"
  obtain uid where uid: "sd_userId sd = Some uid"
    using assms(1) by (auto simp: truthy_def split: option.splits)
  have "distinct (map u_id ?online)"
    using wf_users_distinct_ids [OF assms(7)] by (simp add: distinct_map_filter)
  from others_nonempty [OF this, of uid] False have "?others \<noteq> []"
    by (simp add: uid)
  from pick_in_range [OF assms(3,4) this] obtain target where
    t: "target \<in> set ?others" "pick ?others r1 = Some target" by blast
  have "durations \<noteq> []" by (simp add: durations_def)
  from pick_in_range [OF assms(5,6) this] obtain d where
    d: "d \<in> set durations" "pick durations r2 = Some d" by blast
  from d(1) have d3: "d \<in> {2000, 4500, 7000}" by (simp add: durations_def)
  from t(1) have t1: "target \<in> set ?online" "Some (u_id target) \<noteq> sd_userId sd" by simp_all
  have "outbox (spin_bottle sock sd r1 r2 roomId s) = outbox s @
          [ToRoom roomId (BottleSpinning (u_id target) (Some d) (sd_userId sd))]
        \<and> store (spin_bottle sock sd r1 r2 roomId s) = updateGameState (clock s) roomId
             (\<lambda>g. g\<lparr>gamePhase := Spinning, targetUserId := Some (u_id target)\<rparr>) (store s)
        \<and> timers (spin_bottle sock sd r1 r2 roomId s) = timers s @
             [(nextTimer s, clock s + d + 1000,
               SpinResolve sock roomId (u_id target) (username target))]"
    using assms(1,2) False t(2) d(2)
    by (simp add: spin_bottle_def Let_def setTimeout_def emit_def)
  with t1 d3 False show ?thesis
    unfolding Let_def by (simp only: if_False) blast
qed

theorem spin_bottle_outcome_witness:
  "truthy (sd_userId (ex_sd ''A'')) \<and> truthy (sd_roomId (ex_sd ''A''))
   \<and> wf_users (store (ex_server (ex_storage ex_two Waiting) []))
   \<and> outbox (spin_bottle (ex_socket ''A'') (ex_sd ''A'') 0 (1 / 2) ''R''
         (ex_server (ex_storage ex_two Waiting) []))
       = [ToRoom ''R'' (BottleSpinning ''B'' (Some 4500) (Some ''A''))]
   \<and> phase_of (spin_bottle (ex_socket ''A'') (ex_sd ''A'') 0 (1 / 2) ''R''
         (ex_server (ex_storage ex_two Waiting) [])) ''R'' = Some Spinning"
proof -
  have a: "truthy (sd_userId (ex_sd ''A''))" "truthy (sd_roomId (ex_sd ''A''))"
    by (simp_all add: ex_defs storage_defs)
  have w: "wf_users (store (ex_server (ex_storage ex_two Waiting) []))"
    by (simp add: wf_users_def ex_defs)
  have r: "(0::real) \<le> 0" "(0::real) < 1" "(0::real) \<le> 1 / 2" "(1 / 2 :: real) < 1"
    by simp_all
  from spin_bottle_outcome [OF a r w, of "''R''" "ex_socket ''A''"] a w show ?thesis
    by (simp add: spin_bottle_def pick_def durations_def phase_of_def setTimeout_def Let_def
        ex_defs storage_defs)
qed

section \<open>The storage maps stay well-formed\<close>

lemma wf_map_set:
  assumes "distinct (map fst m)" and "list_all (\<lambda>e. fst e = f (snd e)) m" and "f v = k"
  shows "distinct (map fst (map_set m k v)) \<and> list_all (\<lambda>e. fst e = f (snd e)) (map_set m k v)"
  using assms by (induction m) (auto simp: keys_map_set)

lemma wf_lookup:
  "list_all (\<lambda>e. fst e = f (snd e)) m \<Longrightarrow> map_get m k = Some v \<Longrightarrow> f v = k"
  by (auto simp: map_get_def list_all_iff dest!: map_of_SomeD)

lemma wf_users_preserved:
  assumes "wf_users st"
  shows "wf_users (createUser uuid now name roomId skips sid st)"
    and "wf_users (updateUserOnline i b st)"
    and "wf_users (updateUserSkips i n st)"
    and "wf_users (makeUserHost i st)"
    and "wf_users (deleteUser i st)"
    and "wf_users (updateRoomHost r i st)"
    and "wf_users (createKickedUser uuid now r ip name st)"
    and "wf_users (updateGameState now r upd st)"
proof -
  from assms have d: "distinct (map fst (users st))"
    and l: "list_all (\<lambda>e. fst e = u_id (snd e)) (users st)"
    by (simp_all add: wf_users_def)
  show "wf_users (createUser uuid now name roomId skips sid st)"
    using wf_map_set [OF d l, of _ uuid] by (simp add: wf_users_def createUser_def)
  show "wf_users (updateUserOnline i b st)"
    using wf_map_set [OF d l, of _ i] wf_lookup [OF l, of i] assms
    by (simp add: wf_users_def updateUserOnline_def split: option.splits)
  show "wf_users (updateUserSkips i n st)"
    using wf_map_set [OF d l, of _ i] wf_lookup [OF l, of i] assms
    by (simp add: wf_users_def updateUserSkips_def split: option.splits)
  show "wf_users (makeUserHost i st)"
    using wf_map_set [OF d l, of _ i] wf_lookup [OF l, of i] assms
    by (simp add: wf_users_def makeUserHost_def split: option.splits)
  show "wf_users (deleteUser i st)"
    using d l by (simp add: wf_users_def deleteUser_def map_delete_def distinct_map_filter
        list_all_iff)
  show "wf_users (updateRoomHost r i st)"
    using assms by (simp add: wf_users_def updateRoomHost_def split: option.splits)
  show "wf_users (createKickedUser uuid now r ip name st)"
    using assms by (simp add: wf_users_def createKickedUser_def)
  show "wf_users (updateGameState now r upd st)"
    using assms by (simp add: wf_users_def updateGameState_def split: option.splits)
qed

lemma list_all_map_set:
  "list_all (\<lambda>e. fst e = f (snd e)) m \<Longrightarrow> f v = k \<Longrightarrow>
   list_all (\<lambda>e. fst e = f (snd e)) (map_set m k v)"
  by (induction m) auto

lemma wf_gameStates_preserved:
  assumes "wf_gameStates st"
  shows "wf_gameStates (createGameState uuid now r st)"
    and "(\<And>g. g_id (upd g) = g_id g) \<Longrightarrow> wf_gameStates (updateGameState now r upd st)"
proof -
  from assms have l: "list_all (\<lambda>e. fst e = g_id (snd e)) (gameStates st)"
    by (simp add: wf_gameStates_def)
  show "wf_gameStates (createGameState uuid now r st)"
    using list_all_map_set [OF l, of _ uuid]
    by (simp add: wf_gameStates_def createGameState_def)
  show "(\<And>g. g_id (upd g) = g_id g) \<Longrightarrow> wf_gameStates (updateGameState now r upd st)"
  proof (cases "getGameState st r")
    case None
    with assms show ?thesis by (simp add: updateGameState_def)
  next
    case (Some g)
    assume "\<And>g. g_id (upd g) = g_id g"
    then have "g_id ((upd g)\<lparr>updatedAt := now\<rparr>) = g_id g" by simp
    from list_all_map_set [OF l this] Some show ?thesis
      by (simp add: wf_gameStates_def updateGameState_def)
  qed
qed

section \<open>Host reassignment\<close>

lemma sort_key_first:
  assumes "sort_key f xs = y # ys"
  shows "y \<in> set xs \<and> (\<forall>x \<in> set xs. f y \<le> f x)"
proof -
  have "set (sort_key f xs) = set xs" by simp
  with assms have s: "set xs = insert y (set ys)" by simp
  have "sorted (map f (sort_key f xs))" by (rule sorted_sort_key)
  with assms have "\<forall>z \<in> set ys. f y \<le> f z" by simp
  with s show ?thesis by auto
qed

text \<open>
  When a disconnect's grace period ends for the host and somebody is still online, the new
  host is an online user with the earliest \<open>joinedAt\<close>.
\<close>

lemma grace_host_earliest_online:
  assumes "onlineUsers \<noteq> []" and "isHost u"
  shows "\<exists>oldest \<in> set onlineUsers.
           (\<forall>x \<in> set onlineUsers. joinedAt oldest \<le> joinedAt x)
           \<and> graceReassignHost roomId u onlineUsers s =
               emit (ToRoom roomId (NewHost (u_id oldest) (username oldest)))
                 (s\<lparr>store := updateRoomHost roomId (u_id oldest)
                                (makeUserHost (u_id oldest) (store s))\<rparr>)"
proof (cases "sort_key joinedAt onlineUsers")
  case Nil
  then have "length (sort_key joinedAt onlineUsers) = 0" by simp
  with assms(1) show ?thesis by simp
next
  case (Cons oldest rest)
  from sort_key_first [OF Cons] assms Cons show ?thesis
    by (auto simp: graceReassignHost_def)
qed

text \<open>
  When a passed kick vote removes the host, the new host is a remaining user of the room
  with the earliest \<open>joinedAt\<close>, online or not.
\<close>

lemma kick_host_earliest_remaining:
  assumes "remainingUsers \<noteq> []" and "isHost targetUser"
  shows "\<exists>oldest \<in> set remainingUsers.
           (\<forall>x \<in> set remainingUsers. joinedAt oldest \<le> joinedAt x)
           \<and> kickReassignHost roomId targetUser remainingUsers s =
               emit (ToRoom roomId (NewHost (u_id oldest) (username oldest)))
                 (s\<lparr>store := updateRoomHost roomId (u_id oldest)
                                (makeUserHost (u_id oldest) (store s))\<rparr>)"
proof (cases "sort_key joinedAt remainingUsers")
  case Nil
  then have "length (sort_key joinedAt remainingUsers) = 0" by simp
  with assms(1) show ?thesis by simp
next
  case (Cons oldest rest)
  from sort_key_first [OF Cons] assms Cons show ?thesis
    by (auto simp: kickReassignHost_def)
qed

text \<open>
  C6 fails on the kick path. The host \<open>A\<close> is voted out; of the remaining users \<open>B\<close> joined
  first but is offline, \<open>C\<close> is online. \<open>resolveVote\<close> sorts all remaining users, not the
  online ones, and makes \<open>B\<close> the host: afterwards the room has an online user and no
  online user is host.
\<close>

theorem kick_host_reassigns_offline:
  "map (\<lambda>u. (u_id u, isHost u, isOnline u))
     (getUsersByRoom (store (resolveVote (ex_socket ''C'') ''k1'' ''v1'' ''R'' ex_kick_host)) ''R'')
     = [(''B'', True, False), (''C'', False, True)]
   \<and> outbox (resolveVote (ex_socket ''C'') ''k1'' ''v1'' ''R'' ex_kick_host)
     = [ToRoom ''R'' (UserLeft ''A'' (map snd [ex_user ''B'' False False 1 2000,
                                               ex_user ''C'' False True 1 3000])),
        ToRoom ''R'' (NewHost ''B'' ''B''),
        ToRoom ''R'' (VoteResolved ''v1'' True 1 0)]"
  by (simp add: ex_kick_host_def resolveVote_def kickReassignHost_def yesCount_def noCount_def
      Let_def ex_defs storage_defs)

theorem kick_host_reassigns_offline_witness:
  "filter (\<lambda>u. isOnline u \<and> isHost u)
     (getUsersByRoom (store (resolveVote (ex_socket ''C'') ''k1'' ''v1'' ''R'' ex_kick_host)) ''R'')
     = []
   \<and> filter isOnline
     (getUsersByRoom (store (resolveVote (ex_socket ''C'') ''k1'' ''v1'' ''R'' ex_kick_host)) ''R'')
     \<noteq> []"
proof -
  let ?us = "getUsersByRoom (store (resolveVote (ex_socket ''C'') ''k1'' ''v1'' ''R'' ex_kick_host)) ''R''"
  from kick_host_reassigns_offline
  have m: "map (\<lambda>u. (u_id u, isHost u, isOnline u)) ?us = [(''B'', True, False), (''C'', False, True)]"
    by simp
  then obtain b c where us: "?us = [b, c]"
    by (auto simp: map_eq_Cons_conv)
  with m show ?thesis by auto
qed

section \<open>Inactivity supervision\<close>

lemma startInactivityTimer_arms:
  "timers (startInactivityTimer sock roomId userId name s) =
     timers (clearInactivityTimer userId s)
       @ [(nextTimer s, clock s + 120000, InactivityWarn sock roomId userId name)]
   \<and> map_get (inactivityTimers (startInactivityTimer sock roomId userId name s)) userId
       = Some (nextTimer s)"
  by (simp add: startInactivityTimer_def setTimeout_def clearInactivityTimer_def clearTimeout_def
      map_get_map_set split: option.splits)

lemma inactivityWarn_effect:
  "outbox (inactivityWarn sock roomId userId name s) = outbox s @ [ToRoom roomId (UserInactive userId name)]
   \<and> timers (inactivityWarn sock roomId userId name s) =
       timers s @ [(nextTimer s, clock s + 5000, InactivityVote sock roomId userId name)]"
  by (simp add: inactivityWarn_def setTimeout_def emit_def)

lemma clearInactivityTimer_pending:
  "map_get (inactivityTimers s) userId = Some h \<Longrightarrow>
   h \<notin> fst ` set (timers (clearInactivityTimer userId s))
   \<and> map_get (inactivityTimers (clearInactivityTimer userId s)) userId = None"
  by (auto simp: clearInactivityTimer_def clearTimeout_def map_get_map_delete)

text \<open>
  C8 fails between the warning and the escalation. \<open>B\<close> is supervised from time 0; the
  warning is broadcast at 120 s; at 121 s \<open>B\<close> chooses truth, which moves the room to
  \<open>asking\<close> and calls \<open>clearInactivityTimer\<close> for \<open>B\<close>. The 5-second timer of the second
  stage was never recorded in \<open>inactivityTimers\<close>, so it stays pending, fires at 125 s and
  creates the system's kick vote against \<open>B\<close>.
\<close>

theorem inactivity_vote_not_cancelled:
  "outbox (fire ''x'' (advance 120000 ex_supervised)) = [ToRoom ''R'' (UserInactive ''B'' ''B'')]
   \<and> phase_of (choose_truth_or_dare (ex_socket ''B'') (ex_sd ''B'') ''R'' Truth
        (advance 121000 (fire ''x'' (advance 120000 ex_supervised)))) ''R'' = Some Asking
   \<and> map (\<lambda>t. (fst (snd t), snd (snd t)))
        (timers (choose_truth_or_dare (ex_socket ''B'') (ex_sd ''B'') ''R'' Truth
           (advance 121000 (fire ''x'' (advance 120000 ex_supervised)))))
     = [(125000, InactivityVote (ex_socket ''A'') ''R'' ''B'' ''B''),
        (241000, InactivityWarn (ex_socket ''B'') ''R'' ''A'' ''A'')]
   \<and> map (\<lambda>e. (v_targetUserId (snd e), initiatorUserId (snd e), v_type (snd e)))
        (activeVotes (fire ''x'' (advance 125000
           (choose_truth_or_dare (ex_socket ''B'') (ex_sd ''B'') ''R'' Truth
              (advance 121000 (fire ''x'' (advance 120000 ex_supervised)))))))
     = [(''B'', ''system'', Kick)]"
  by (simp add: ex_supervised_def startInactivityTimer_def clearInactivityTimer_def
      setTimeout_def clearTimeout_def fire_def next_due_def advance_def inactivityWarn_def
      inactivityVote_def choose_truth_or_dare_def phase_of_def Let_def ex_defs storage_defs
      del: decimal.simps)

theorem inactivity_vote_not_cancelled_witness:
  "activeVotes (fire ''x'' (advance 125000
      (choose_truth_or_dare (ex_socket ''B'') (ex_sd ''B'') ''R'' Truth
         (advance 121000 (fire ''x'' (advance 120000 ex_supervised)))))) \<noteq> []"
  using inactivity_vote_not_cancelled by auto

section \<open>The reap sweep\<close>

lemma gameStates_sweep_step:
  "gameStates (deleteRoom r (expireRoom r (deleteMessagesByRoom r st))) = gameStates st"
  "users (deleteRoom r (expireRoom r (deleteMessagesByRoom r st))) = users st"
  by (simp_all add: deleteRoom_def expireRoom_def deleteMessagesByRoom_def Let_def
      split: option.splits)

lemma cleanupRooms_keeps:
  "gameStates (store (cleanupRooms rs s)) = gameStates (store s)
   \<and> users (store (cleanupRooms rs s)) = users (store s)"
  by (induction rs arbitrary: s) (auto simp: gameStates_sweep_step split: sum.splits)

text \<open>The sweep never removes a game state or a user, whatever rooms it reaps.\<close>

lemma cleanup_keeps_game_states_and_users:
  "gameStates (store (cleanup s)) = gameStates (store s)
   \<and> users (store (cleanup s)) = users (store s)"
  by (simp add: cleanup_def cleanupRooms_keeps)

text \<open>
  C9 fails for the game state. The sweep removes the idle room, its messages and the
  uploaded file, with both users online; the room's game state record and user records
  stay in the storage, since \<open>deleteRoom\<close> removes the room from the \<open>rooms\<close> map only.
\<close>

theorem sweep_keeps_game_state:
  "map r_id (getInactiveRooms (clock ex_idle) 30 (store ex_idle)) = [''R'']
   \<and> rooms (store (cleanup ex_idle)) = []
   \<and> messages (store (cleanup ex_idle)) = []
   \<and> uploads (cleanup ex_idle) = []
   \<and> length (filter isOnline (getUsersByRoom (store (cleanup ex_idle)) ''R'')) = 2
   \<and> getGameState (store (cleanup ex_idle)) ''R'' = getGameState (store ex_idle) ''R''
   \<and> map g_id (map_values (gameStates (store (cleanup ex_idle)))) = [''G'']"
  by (simp add: ex_idle_def cleanup_def getInactiveRooms_def getMessagesByRoom_def
      deleteMessagesByRoom_def deleteFile_def basename_def expireRoom_def deleteRoom_def
      map_set.simps Let_def ex_defs storage_defs)

theorem sweep_keeps_game_state_witness:
  "gameStates (store (cleanup ex_idle)) \<noteq> [] \<and> getRoom (store (cleanup ex_idle)) ''R'' = None"
  using sweep_keeps_game_state by (auto simp: getRoom_def map_get_def map_values_def)

end
